theory Spec2Isabelle
  imports Main "HOL-Library.Char_ord" "HOL-Library.List_Lexorder" "HOL-Library.AList"
begin

section \<open>Values shared by the whole client\<close>

text \<open>
  A Go \<^verbatim>\<open>error\<close> built by \<^verbatim>\<open>errors.New\<close> carries a message; \<^verbatim>\<open>err.Error()\<close> reads
  it back. A nil error is \<open>None\<close> of \<open>error option\<close>, and a function returning
  \<^verbatim>\<open>(x, err)\<close> returns \<open>error + 'a\<close> with \<open>Inl\<close> for the error.
\<close>

datatype error = errors_New string

primrec Error :: "error \<Rightarrow> string" where
  "Error (errors_New m) = m"

text \<open>\<^verbatim>\<open>formatError\<close> of the client file: the location, a colon and the message.\<close>

definition formatError :: "string \<Rightarrow> error \<Rightarrow> error" where
  "formatError location err = errors_New (location @ '': '' @ Error err)"

text \<open>
  \<^verbatim>\<open>fmt.Sprintf("%d", i)\<close> and \<^verbatim>\<open>strconv.Itoa\<close>: the decimal digits, with a minus
  sign for a negative number. Go's \<^verbatim>\<open>int\<close> is a 64-bit integer; the model is \<open>int\<close>
  and \<open>wrap64\<close> is written where the source adds.
\<close>

fun digits :: "nat \<Rightarrow> string" where
  "digits n =
     (if n < 10 then [''0123456789'' ! n]
      else digits (n div 10) @ [''0123456789'' ! (n mod 10)])"

declare digits.simps [simp del]

definition itoa :: "int \<Rightarrow> string" where
  "itoa i = (if i < 0 then CHR ''-'' # digits (nat (- i)) else digits (nat i))"

definition wrap64 :: "int \<Rightarrow> int" where
  "wrap64 x = (x + 2 ^ 63) mod 2 ^ 64 - 2 ^ 63"

text \<open>
  \<^verbatim>\<open>time.Time\<close> and \<^verbatim>\<open>decimal.Decimal\<close> belong to libraries outside the repository.
  A time is its instant (seconds and nanoseconds since the year 1); \<^verbatim>\<open>IsZero\<close> holds
  for the instant zero. A decimal is a coefficient and an exponent; \<^verbatim>\<open>IsZero\<close> holds
  when the coefficient is zero. How they print, how a query component is escaped and the
  HMAC itself are the libraries' business: the record \<open>stdlib\<close> carries them as
  functions, and everything proved holds for every such record.
\<close>

record Time =
  t_sec :: int
  t_nsec :: int

definition Time_IsZero :: "Time \<Rightarrow> bool" where
  "Time_IsZero t = (t_sec t = 0 \<and> t_nsec t = 0)"

definition zero_Time :: Time where
  "zero_Time = \<lparr>t_sec = 0, t_nsec = 0\<rparr>"

record Decimal =
  d_value :: int
  d_exp :: int

definition Decimal_IsZero :: "Decimal \<Rightarrow> bool" where
  "Decimal_IsZero d = (d_value d = 0)"

definition zero_Decimal :: Decimal where
  "zero_Decimal = \<lparr>d_value = 0, d_exp = 0\<rparr>"

record stdlib =
  Format_RFC3339 :: "Time \<Rightarrow> string"
  Decimal_String :: "Decimal \<Rightarrow> string"
  QueryEscape :: "string \<Rightarrow> string"
  hmac_Write :: "string \<Rightarrow> string \<Rightarrow> error option"
  hmac_Sum :: "string \<Rightarrow> string \<Rightarrow> string"

definition timeToString :: "stdlib \<Rightarrow> Time \<Rightarrow> string" where
  "timeToString lib t = Format_RFC3339 lib t"

section \<open>The parameter encoder (api\_helpers.go)\<close>

text \<open>
  \<^verbatim>\<open>url.Values\<close> is a map from a key to the list of its values. It is kept as an
  association list with one entry per key; \<^verbatim>\<open>Add\<close> appends to the key's list, and
  makes the entry when the key is new. \<^verbatim>\<open>Encode\<close> writes the keys in sorted order,
  every value of a key as \<^verbatim>\<open>key=value\<close>, joined by \<^verbatim>\<open>&\<close>.
\<close>

type_synonym Values = "(string \<times> string list) list"

fun Add :: "Values \<Rightarrow> string \<Rightarrow> string \<Rightarrow> Values" where
  "Add [] k v = [(k, [v])]"
| "Add ((k', vs) # u) k v = (if k' = k then (k', vs @ [v]) # u else (k', vs) # Add u k v)"

definition keys :: "Values \<Rightarrow> string list" where
  "keys u = map fst u"

fun values_of :: "Values \<Rightarrow> string \<Rightarrow> string list" where
  "values_of [] k = []"
| "values_of ((k', vs) # u) k = (if k' = k then vs else values_of u k)"

definition write_pair :: "stdlib \<Rightarrow> string \<Rightarrow> string \<times> string \<Rightarrow> string" where
  "write_pair lib buf kv =
     (if buf \<noteq> [] then buf @ ''&'' else buf) @ QueryEscape lib (fst kv) @ ''='' @ QueryEscape lib (snd kv)"

definition Encode :: "stdlib \<Rightarrow> Values \<Rightarrow> string" where
  "Encode lib u =
     foldl (write_pair lib) []
       (concat (map (\<lambda>(k, vs). map (Pair k) vs) (sort_key fst u)))"

text \<open>
  The encoder reads a struct by reflection. What it can see of a field is its \<^verbatim>\<open>cbt\<close>
  tag (empty when the field has none) and its value, whose kind selects the branch of the
  switch: a string, an \<^verbatim>\<open>int\<close> or \<^verbatim>\<open>int64\<close>, a slice (each element read with
  \<^verbatim>\<open>String()\<close>), a \<^verbatim>\<open>time.Time\<close>, a \<^verbatim>\<open>decimal.Decimal\<close>, or any other kind, which
  no branch handles. The argument itself is an \<^verbatim>\<open>interface{}\<close>: nil, a struct, or a
  value of another kind.
\<close>

datatype field_value =
    VString string
  | VInt int
  | VSlice "string list"
  | VTime Time
  | VDecimal Decimal
  | VOther

type_synonym field = "string \<times> field_value"

datatype iface = Nil_iface | Struct "field list" | NonStruct

definition add_field :: "stdlib \<Rightarrow> Values \<Rightarrow> field \<Rightarrow> Values" where
  "add_field lib u f =
     (let tag = fst f in
      if tag \<noteq> [] then
        (case snd f of
           VString s \<Rightarrow> if s \<noteq> [] then Add u tag s else u
         | VInt i \<Rightarrow> if i \<noteq> 0 then Add u tag (itoa i) else u
         | VSlice xs \<Rightarrow> if length xs > 0 then foldl (\<lambda>u' x. Add u' tag x) u xs else u
         | VTime t \<Rightarrow> if \<not> Time_IsZero t then Add u tag (timeToString lib t) else u
         | VDecimal d \<Rightarrow> if \<not> Decimal_IsZero d then Add u tag (Decimal_String lib d) else u
         | VOther \<Rightarrow> u)
      else u)"

definition parametersToValues :: "stdlib \<Rightarrow> iface \<Rightarrow> error + Values" where
  "parametersToValues lib p =
     (case p of
        Nil_iface \<Rightarrow> Inl (errors_New ''nil value passed to parametersToValues'')
      | NonStruct \<Rightarrow> Inl (errors_New ''struct not provided as source of reflect'')
      | Struct fs \<Rightarrow> Inr (foldl (add_field lib) [] fs))"

text \<open>The zero value of a field, and whether a field holds it.\<close>

fun is_zero :: "field_value \<Rightarrow> bool" where
  "is_zero (VString s) = (s = [])"
| "is_zero (VInt i) = (i = 0)"
| "is_zero (VSlice xs) = (xs = [])"
| "is_zero (VTime t) = Time_IsZero t"
| "is_zero (VDecimal d) = Decimal_IsZero d"
| "is_zero VOther = True"

definition all_zero :: "field list \<Rightarrow> bool" where
  "all_zero fs = list_all (\<lambda>f. fst f = [] \<or> is_zero (snd f)) fs"

section \<open>The client: construction, signing and the decoding of a response\<close>

type_synonym Method = string

definition Get :: Method where "Get = ''GET''"
definition Put :: Method where "Put = ''PUT''"
definition Post :: Method where "Post = ''POST''"
definition Delete :: Method where "Delete = ''DELETE''"

definition createOrderEndpoint :: string where "createOrderEndpoint = ''/orders''"
definition cancelOrdersEndpoint :: string where "cancelOrdersEndpoint = ''/orders/batch_cancel''"
definition listOrdersEndpoint :: string where "listOrdersEndpoint = ''/orders/historical/batch''"
definition listFillsEndpoint :: string where "listFillsEndpoint = ''/orders/historical/fills''"
definition listProductsEndpoint :: string where "listProductsEndpoint = ''/products''"

text \<open>
  The client's fields. The HTTP handle is not a value of the model: what an exchange
  answers is an input of the functions that make one.
\<close>

record Client =
  Host :: string
  Path :: string
  Key :: string
  Secret :: string
  lastCall :: Time
  debug :: bool

record ClientConfig =
  cfg_Host :: string
  cfg_Path :: string
  cfg_Key :: string
  cfg_Secret :: string

text \<open>
  One round of the loop of \<^verbatim>\<open>NewClient\<close>: every field of \<open>c\<close> that is still empty
  takes the field of \<open>v\<close>.
\<close>

definition fill_empty :: "Client \<Rightarrow> Client \<Rightarrow> Client" where
  "fill_empty c v =
     c\<lparr>Host := (if Host c = [] then Host v else Host c),
       Path := (if Path c = [] then Path v else Path c),
       Key := (if Key c = [] then Key v else Key c),
       Secret := (if Secret c = [] then Secret v else Secret c)\<rparr>"

text \<open>
  \<^verbatim>\<open>NewClient\<close>. \<open>getenv\<close> is \<^verbatim>\<open>os.Getenv\<close> (the empty string for a variable that is
  not set), \<open>now\<close> the clock's reading, and a nil configuration is \<open>None\<close>.
\<close>

definition NewClient :: "(string \<Rightarrow> string) \<Rightarrow> Time \<Rightarrow> ClientConfig option \<Rightarrow> Client" where
  "NewClient getenv now config =
     (let cc = (case config of
                  None \<Rightarrow> \<lparr>Host = [], Path = [], Key = [], Secret = [],
                            lastCall = zero_Time, debug = False\<rparr>
                | Some cfg \<Rightarrow> \<lparr>Host = cfg_Host cfg, Path = cfg_Path cfg, Key = cfg_Key cfg,
                                Secret = cfg_Secret cfg, lastCall = zero_Time, debug = False\<rparr>);
          defaults = \<lparr>Host = ''https://coinbase.com'', Path = ''/api/v3/brokerage'',
                      Key = [], Secret = [], lastCall = zero_Time, debug = False\<rparr>;
          c = \<lparr>Host = getenv ''COINBASE_HOST'', Path = getenv ''COINBASE_PATH'',
               Key = getenv ''COINBASE_KEY'', Secret = getenv ''COINBASE_SECRET'',
               lastCall = zero_Time, debug = False\<rparr>
      in (foldl fill_empty c [cc, defaults])\<lparr>lastCall := now\<rparr>)"

text \<open>
  \<^verbatim>\<open>hex.EncodeToString\<close>: two characters of the table \<^verbatim>\<open>0123456789abcdef\<close> for every
  byte, the high half first.
\<close>

definition hextable :: string where
  "hextable = ''0123456789abcdef''"

definition EncodeToString :: "string \<Rightarrow> string" where
  "EncodeToString src =
     concat (map (\<lambda>b. [hextable ! (of_char b div 16), hextable ! (of_char b mod 16)]) src)"

text \<open>
  \<^verbatim>\<open>Client.sign\<close>: the message is the four parts printed one after the other; a failed
  write of the message into the hash is returned, otherwise the digest in hexadecimal.
\<close>

definition sign :: "stdlib \<Rightarrow> Client \<Rightarrow> string \<Rightarrow> Method \<Rightarrow> string \<Rightarrow> string \<Rightarrow> error + string" where
  "sign lib c timestamp m resource data =
     (let message = timestamp @ m @ resource @ data in
      case hmac_Write lib (Secret c) message of
        Some err \<Rightarrow> Inl err
      | None \<Rightarrow> Inr (EncodeToString (hmac_Sum lib (Secret c) message)))"

text \<open>
  \<^verbatim>\<open>Client.Request\<close>, after the wait of the rate gate. \<open>exchange\<close> is what
  \<^verbatim>\<open>c.request\<close> returned: an error, or the body read and the status code.
  \<open>unmarshal_message\<close> is \<^verbatim>\<open>json.Unmarshal\<close> into the struct with the one field
  \<^verbatim>\<open>message\<close>. A target that is nil is \<open>None\<close>; a target that is given is the
  decoder of its type, and the decoded value is returned in its place.
\<close>

definition Request ::
  "(string \<Rightarrow> error + string) \<Rightarrow> Client \<Rightarrow> error + string \<times> int \<Rightarrow>
   (string \<Rightarrow> error + 'r) option \<Rightarrow> (string \<Rightarrow> error + 'p) option \<Rightarrow>
   error + 'r option \<times> 'p option" where
  "Request unmarshal_message c exchange result pagination =
     (case exchange of
        Inl err \<Rightarrow> Inl err
      | Inr (data, StatusCode) \<Rightarrow>
          if StatusCode \<noteq> 200 then
            (let Message = (case unmarshal_message data of
                              Inl err \<Rightarrow> ''('' @ itoa StatusCode @ '') '' @ data
                            | Inr msg \<Rightarrow> msg);
                 Message' = (if Key c = [] \<or> Secret c = []
                             then Message @ '' [API key or secret is missing]''
                             else Message)
             in Inl (formatError ''api response'' (errors_New Message')))
          else
            (case (case result of
                     None \<Rightarrow> Inr None
                   | Some dec \<Rightarrow>
                       (case dec data of
                          Inl err \<Rightarrow> Inl (formatError ''unmarshal api result'' err)
                        | Inr r \<Rightarrow> Inr (Some r))) of
               Inl err \<Rightarrow> Inl err
             | Inr r \<Rightarrow>
                 (case pagination of
                    None \<Rightarrow> Inr (r, None)
                  | Some dec \<Rightarrow>
                      (case dec data of
                         Inl err \<Rightarrow> Inl (formatError ''unmarshal pagination result'' err)
                       | Inr pg \<Rightarrow> Inr (r, Some pg)))))"

section \<open>Pagination\<close>

text \<open>
  The fields every list response may carry, decoded by \<^verbatim>\<open>NextPage\<close> into a struct of
  its own.
\<close>

record pg_fields =
  HasNext :: bool
  Cursor :: string
  NumProducts :: int

definition zero_pg :: pg_fields where
  "zero_pg = \<lparr>HasNext = False, Cursor = [], NumProducts = 0\<rparr>"

text \<open>
  The state of a list. The source's field \<^verbatim>\<open>end\<close> is \<open>end_flag\<close> and its field
  \<^verbatim>\<open>method\<close> is \<open>http_method\<close>. The client and the parent (the list that receives
  each page) are not fields of the model: the client is part of the record \<open>api\<close>
  below, and the page decoded into the parent is not kept.
\<close>

record Pagination =
  parameters :: iface
  http_method :: Method
  endpoint :: string
  noNext :: bool
  end_flag :: bool
  cursor :: string
  limit :: int
  offset :: int

definition Next :: "Pagination \<Rightarrow> bool" where
  "Next p = (\<not> end_flag p)"

text \<open>
  What a list needs of the world. A call of \<^verbatim>\<open>client.Request\<close> is a method, an
  endpoint and a query; \<open>exchange\<close> is what \<^verbatim>\<open>c.request\<close> returns for a call, given
  the calls made before it (so that a server may answer page after page). The three
  decoders are \<^verbatim>\<open>json.Unmarshal\<close> into the error message, into the parent and into
  the pagination fields.
\<close>

type_synonym call = "Method \<times> string \<times> Values"

record 'r api =
  api_lib :: stdlib
  api_client :: Client
  unmarshal_message :: "string \<Rightarrow> error + string"
  unmarshal_parent :: "string \<Rightarrow> error + 'r"
  unmarshal_pg :: "string \<Rightarrow> error + pg_fields"
  exchange :: "call list \<Rightarrow> call \<Rightarrow> error + string \<times> int"

text \<open>
  \<^verbatim>\<open>p.client.Request(p.method, p.endpoint, query, []byte{}, p.parent, &pg)\<close>: both
  targets are given.
\<close>

definition client_Request :: "'r api \<Rightarrow> call list \<Rightarrow> call \<Rightarrow> error + 'r option \<times> pg_fields option" where
  "client_Request api calls c =
     Request (unmarshal_message api) (api_client api) (exchange api calls c)
       (Some (unmarshal_parent api)) (Some (unmarshal_pg api))"

text \<open>The cursor or the offset that \<^verbatim>\<open>NextPage\<close> adds to the query.\<close>

definition add_position :: "Pagination \<Rightarrow> Values \<Rightarrow> Values" where
  "add_position p query =
     (if cursor p \<noteq> [] then Add query ''cursor'' (cursor p)
      else if offset p > 0 then Add query ''offset'' (itoa (offset p))
      else query)"

text \<open>
  \<^verbatim>\<open>Pagination.NextPage\<close>. It takes the list's state and the calls made so far, and
  returns the error (or none), the new state and the calls made.
\<close>

definition NextPage ::
  "'r api \<Rightarrow> Pagination \<Rightarrow> call list \<Rightarrow> error option \<times> Pagination \<times> call list" where
  "NextPage api p calls =
     (if noNext p then (None, p\<lparr>end_flag := True\<rparr>, calls)
      else
        (case parametersToValues (api_lib api) (parameters p) of
           Inl err \<Rightarrow> (Some err, p, calls)
         | Inr query \<Rightarrow>
             (let c = (http_method p, endpoint p, add_position p query);
                  calls' = calls @ [c]
              in case client_Request api calls c of
                   Inl err \<Rightarrow> (Some err, p, calls')
                 | Inr (r, decoded) \<Rightarrow>
                     (let pg = (case decoded of None \<Rightarrow> zero_pg | Some x \<Rightarrow> x);
                          p1 = p\<lparr>noNext := \<not> HasNext pg, cursor := Cursor pg\<rparr>
                      in if cursor p1 = [] then
                           (if limit p1 = 0 then
                              (Some (errors_New ''no limit specified for offset pagination''),
                               p1, calls')
                            else
                              (let p2 = p1\<lparr>offset := wrap64 (offset p1 + limit p1)\<rparr>
                               in (None, p2\<lparr>noNext := (offset p2 \<ge> NumProducts pg)\<rparr>, calls')))
                         else (None, p1, calls')))))"

text \<open>
  A list in use: what each call of \<^verbatim>\<open>NextPage\<close> returned, the state, and the calls
  made. \<open>call_NextPage\<close> is one more call on the list, and \<open>call_NextPage api ^^ n\<close>
  is \<open>n\<close> calls one after the other.
\<close>

record session =
  returned :: "error option list"
  page :: Pagination
  sent :: "call list"

definition call_NextPage :: "'r api \<Rightarrow> session \<Rightarrow> session" where
  "call_NextPage api s =
     (case NextPage api (page s) (sent s) of
        (err, p, calls) \<Rightarrow> \<lparr>returned = returned s @ [err], page = p, sent = calls\<rparr>)"


record ListProductsParameters =
  lp_Limit :: int
  lp_Type :: string

record ListOrdersParameters =
  lo_Product :: string
  lo_Type :: string
  lo_Side :: string
  lo_Status :: "string list"
  lo_StartDate :: Time
  lo_EndDate :: Time
  lo_UserNativeCurrency :: string
  lo_ProductType :: string
  lo_Limit :: int

record ListFillsParameters =
  lf_OrderID :: string
  lf_ProductID :: string
  lf_StartSequenceTime :: Time
  lf_EndSequenceTime :: Time
  lf_Limit :: int


definition reflect_ListProductsParameters :: "ListProductsParameters \<Rightarrow> iface" where
  "reflect_ListProductsParameters params =
     Struct [(''limit'', VInt (lp_Limit params)), (''product_type'', VString (lp_Type params))]"

definition reflect_ListOrdersParameters :: "ListOrdersParameters \<Rightarrow> iface" where
  "reflect_ListOrdersParameters params =
     Struct [(''product_id'', VString (lo_Product params)),
             (''order_type'', VString (lo_Type params)),
             (''order_side'', VString (lo_Side params)),
             (''order_status'', VSlice (lo_Status params)),
             (''start_date'', VTime (lo_StartDate params)),
             (''end_date'', VTime (lo_EndDate params)),
             (''user_native_currency'', VString (lo_UserNativeCurrency params)),
             (''product_type'', VString (lo_ProductType params)),
             (''limit'', VInt (lo_Limit params))]"

definition reflect_ListFillsParameters :: "ListFillsParameters \<Rightarrow> iface" where
  "reflect_ListFillsParameters params =
     Struct [(''order_id'', VString (lf_OrderID params)),
             (''product_id'', VString (lf_ProductID params)),
             (''start_sequence_timestamp'', VTime (lf_StartSequenceTime params)),
             (''end_sequence_timestamp'', VTime (lf_EndSequenceTime params)),
             (''limit'', VInt (lf_Limit params))]"

definition Pagination_literal :: "iface \<Rightarrow> int \<Rightarrow> Method \<Rightarrow> string \<Rightarrow> Pagination" where
  "Pagination_literal params lim m ep =
     \<lparr>parameters = params, http_method = m, endpoint = ep, noNext = False, end_flag = False,
      cursor = [], limit = lim, offset = 0\<rparr>"

definition start_list :: "'r api \<Rightarrow> Pagination \<Rightarrow> session" where
  "start_list api p = call_NextPage api \<lparr>returned = [], page = p, sent = []\<rparr>"


definition ListProducts :: "'r api \<Rightarrow> ListProductsParameters \<Rightarrow> session" where
  "ListProducts api params =
     (let params' = (if lp_Limit params \<le> 0 then params\<lparr>lp_Limit := 100\<rparr> else params)
      in start_list api
           (Pagination_literal (reflect_ListProductsParameters params') (lp_Limit params')
              Get listProductsEndpoint))"

definition ListOrders :: "'r api \<Rightarrow> ListOrdersParameters \<Rightarrow> session" where
  "ListOrders api params =
     (let params' = (if lo_Limit params \<le> 0 then params\<lparr>lo_Limit := 50\<rparr> else params)
      in start_list api
           (Pagination_literal (reflect_ListOrdersParameters params') 0 Get listOrdersEndpoint))"

definition ListFills :: "'r api \<Rightarrow> ListFillsParameters \<Rightarrow> session" where
  "ListFills api params =
     start_list api
       (Pagination_literal (reflect_ListFillsParameters params) 0 Get listFillsEndpoint)"

text \<open>
  What every call of \<^verbatim>\<open>NextPage\<close> keeps: the parameters and the limit of the list, and
  in every request made the values of the key \<^verbatim>\<open>limit\<close> that the parameters encode to.
\<close>

definition limit_kept :: "'r api \<Rightarrow> field list \<Rightarrow> int \<Rightarrow> session \<Rightarrow> bool" where
  "limit_kept api fs l s \<longleftrightarrow>
     parameters (page s) = Struct fs \<and> limit (page s) = l \<and>
     (\<forall>c \<in> set (sent s). values_of (snd (snd c)) ''limit'' =
        values_of (foldl (add_field (api_lib api)) [] fs) ''limit'')"

section \<open>Orders (orders.go)\<close>

text \<open>
  A Go map is an association list with one entry per key: \<^verbatim>\<open>m[k] = v\<close> is
  \<open>AList.update k v m\<close>, \<^verbatim>\<open>m[k]\<close> is \<open>map_of m k\<close> and \<^verbatim>\<open>len(m)\<close> is the
  length of the list. The string types of the file (\<^verbatim>\<open>Side\<close>,
  \<^verbatim>\<open>OrderConfigurationType\<close>, \<^verbatim>\<open>CreateOrderError\<close>, \<^verbatim>\<open>CancelOrderError\<close>) are
  strings.
\<close>

definition MarketIOC :: string where "MarketIOC = ''market_market_ioc''"
definition LimitGTC :: string where "LimitGTC = ''limit_limit_gtc''"
definition LimitGTD :: string where "LimitGTD = ''limit_limit_gtd''"
definition StopLimitGTC :: string where "StopLimitGTC = ''stop_limit_stop_limit_gtc''"
definition StopLimitGTD :: string where "StopLimitGTD = ''stop_limit_stop_limit_gtd''"

record OrderConfiguration =
  oc_Type :: string
  QuoteSize :: Decimal
  BaseSize :: Decimal
  LimitPrice :: Decimal
  StopPrice :: Decimal
  StopDirection :: string
  EndTime :: Time
  PostOnly :: bool

definition zero_OrderConfiguration :: OrderConfiguration where
  "zero_OrderConfiguration =
     \<lparr>oc_Type = [], QuoteSize = zero_Decimal, BaseSize = zero_Decimal,
      LimitPrice = zero_Decimal, StopPrice = zero_Decimal, StopDirection = [],
      EndTime = zero_Time, PostOnly = False\<rparr>"

text \<open>\<^verbatim>\<open>OrderConfiguration.toMap\<close>: the fields that are set, as strings.\<close>

definition toMap :: "stdlib \<Rightarrow> OrderConfiguration \<Rightarrow> (string \<times> string) list" where
  "toMap lib oc =
     (let m1 = (if \<not> Decimal_IsZero (QuoteSize oc)
                then AList.update ''quote_size'' (Decimal_String lib (QuoteSize oc)) []
                else []);
          m2 = (if \<not> Decimal_IsZero (BaseSize oc)
                then AList.update ''base_size'' (Decimal_String lib (BaseSize oc)) m1
                else m1);
          m3 = (if \<not> Decimal_IsZero (LimitPrice oc)
                then AList.update ''limit_price'' (Decimal_String lib (LimitPrice oc)) m2
                else m2);
          m4 = (if \<not> Decimal_IsZero (StopPrice oc)
                then AList.update ''stop_price'' (Decimal_String lib (StopPrice oc)) m3
                else m3);
          m5 = (if StopDirection oc \<noteq> []
                then AList.update ''stop_direction'' (StopDirection oc) m4
                else m4);
          m6 = (if \<not> Time_IsZero (EndTime oc)
                then AList.update ''end_time'' (timeToString lib (EndTime oc)) m5
                else m5)
      in if PostOnly oc then AList.update ''post_only'' ''true'' m6 else m6)"

text \<open>\<^verbatim>\<open>OrderConfiguration.getType\<close>: the type that the fields set stand for.\<close>

definition getType :: "OrderConfiguration \<Rightarrow> string" where
  "getType oc =
     (let gtd = \<not> Time_IsZero (EndTime oc);
          stop = \<not> Decimal_IsZero (StopPrice oc);
          lim = \<not> Decimal_IsZero (LimitPrice oc)
      in if \<not> lim then MarketIOC
         else if \<not> gtd \<and> \<not> stop then LimitGTC
         else if gtd \<and> \<not> stop then LimitGTD
         else if \<not> gtd \<and> stop then StopLimitGTC
         else StopLimitGTD)"

text \<open>
  The body of the request of \<^verbatim>\<open>CreateOrder\<close>, the response it decodes, and the part of
  an \<^verbatim>\<open>Order\<close> that it fills (the other fields of the order stay zero).
\<close>

record order_wrapper =
  w_ClientOrderID :: string
  w_ProductID :: string
  w_Side :: string
  w_OrderConfiguration :: "(string \<times> (string \<times> string) list) list"

record create_response =
  cre_Success :: bool
  cre_OrderID :: string
  cre_OrderConfig :: "(string \<times> OrderConfiguration) list"
  cre_Error :: string
  cre_Details :: string

record Order =
  o_ID :: string
  o_Side :: string
  o_OrderConfiguration :: OrderConfiguration

definition zero_Order :: Order where
  "zero_Order = \<lparr>o_ID = [], o_Side = [], o_OrderConfiguration = zero_OrderConfiguration\<rparr>"

text \<open>
  What \<^verbatim>\<open>CreateOrder\<close> returns: the order, the error type, the error, and (for the
  model) the requests it handed to \<^verbatim>\<open>makeRequest\<close>, each a method, an endpoint, a query
  and a body.
\<close>

record create_result =
  res_order :: Order
  res_errorType :: string
  res_err :: "error option"
  res_requests :: "(Method \<times> string \<times> Values \<times> string) list"

text \<open>
  \<^verbatim>\<open>Client.CreateOrder\<close>, in the later of the two versions that the file holds (the one
  that fills in a missing client order id). \<open>now_ms\<close> is
  \<^verbatim>\<open>time.Now().UnixMilli()\<close>, \<open>marshal\<close> is \<^verbatim>\<open>json.Marshal\<close> of the wrapper, and
  \<open>makeRequest\<close> is the client's \<^verbatim>\<open>makeRequest\<close> with the response struct as its
  target: it returns an error, or the response decoded.
\<close>

definition CreateOrder ::
  "stdlib \<Rightarrow> int \<Rightarrow> (order_wrapper \<Rightarrow> error + string) \<Rightarrow>
   (Method \<Rightarrow> string \<Rightarrow> Values \<Rightarrow> string \<Rightarrow> error + create_response) \<Rightarrow>
   string \<Rightarrow> string \<Rightarrow> string \<Rightarrow> OrderConfiguration \<Rightarrow> create_result" where
  "CreateOrder lib now_ms marshal makeRequest clientOrderId productId side orderConfig =
     (let clientOrderId' = (if clientOrderId = [] then itoa now_ms else clientOrderId);
          wrapper = \<lparr>w_ClientOrderID = clientOrderId', w_ProductID = productId, w_Side = side,
                     w_OrderConfiguration = [(oc_Type orderConfig, toMap lib orderConfig)]\<rparr>
      in case marshal wrapper of
           Inl e \<Rightarrow>
             \<lparr>res_order = zero_Order, res_errorType = [],
              res_err = Some (formatError ''create order'' e), res_requests = []\<rparr>
         | Inr payload \<Rightarrow>
             (case makeRequest Post createOrderEndpoint [] payload of
                Inl e \<Rightarrow>
                  \<lparr>res_order = zero_Order, res_errorType = [],
                   res_err = Some (formatError ''api connection error'' e),
                   res_requests = [(Post, createOrderEndpoint, [], payload)]\<rparr>
              | Inr response \<Rightarrow>
                  if cre_Success response then
                    \<lparr>res_order =
                       \<lparr>o_ID = cre_OrderID response, o_Side = side,
                        o_OrderConfiguration =
                          (case map_of (cre_OrderConfig response) (getType orderConfig) of
                             None \<Rightarrow> zero_OrderConfiguration
                           | Some c \<Rightarrow> c)\<rparr>,
                     res_errorType = [], res_err = None,
                     res_requests = [(Post, createOrderEndpoint, [], payload)]\<rparr>
                  else
                    \<lparr>res_order = zero_Order, res_errorType = cre_Error response,
                     res_err = Some (errors_New (cre_Details response)),
                     res_requests = [(Post, createOrderEndpoint, [], payload)]\<rparr>))"

text \<open>
  One result of a batch cancel (the source's fields \<^verbatim>\<open>Success\<close>, \<^verbatim>\<open>Error\<close> and
  \<^verbatim>\<open>ID\<close>), and \<^verbatim>\<open>Client.CancelOrders\<close>. Both versions of the file have the same
  body but for the name of the function that makes the request; \<open>makeRequest\<close> is that
  function with the response struct as its target. A nil map is the empty one.
\<close>

record cancel_result =
  Success :: bool
  failure_reason :: string
  ID :: string

definition note_failure :: "(string \<times> string) list \<Rightarrow> cancel_result \<Rightarrow> (string \<times> string) list" where
  "note_failure cancelErrors v =
     (if Success v then cancelErrors else AList.update (ID v) (failure_reason v) cancelErrors)"

definition CancelOrders ::
  "(string list \<Rightarrow> error + string) \<Rightarrow>
   (Method \<Rightarrow> string \<Rightarrow> Values \<Rightarrow> string \<Rightarrow> error + cancel_result list) \<Rightarrow>
   string list \<Rightarrow> (string \<times> string) list \<times> error option" where
  "CancelOrders marshal makeRequest orderIds =
     (case marshal orderIds of
        Inl e \<Rightarrow> ([], Some (formatError ''cancel orders'' e))
      | Inr payload \<Rightarrow>
          (case makeRequest Post cancelOrdersEndpoint [] payload of
             Inl e \<Rightarrow> ([], Some (formatError ''api connection error'' e))
           | Inr Results \<Rightarrow>
               (let cancelErrors = foldl note_failure [] Results
                in (cancelErrors,
                    if length cancelErrors > 0
                    then Some (errors_New ''one or more orders were not cancelled successfully'')
                    else None))))"

section \<open>Simulated servers\<close>

text \<open>
  A stand-in for the libraries, used only to evaluate the client at concrete inputs: times
  and decimals print as one number, nothing is escaped, and the digest of a message is the
  key followed by the message.
\<close>

definition plain_lib :: stdlib where
  "plain_lib =
     \<lparr>Format_RFC3339 = (\<lambda>t. itoa (t_sec t)),
      Decimal_String = (\<lambda>d. itoa (d_value d)),
      QueryEscape = (\<lambda>s. s),
      hmac_Write = (\<lambda>k m. None),
      hmac_Sum = (\<lambda>k m. k @ m)\<rparr>"

text \<open>
  Servers to run the lists against at concrete inputs. A simulated server answers every
  call with status 200; the body of its answer to the call number \<open>n\<close> (counting from
  0) is \<open>n\<close> characters long, and the decoder of the pagination fields reads the fields
  \<open>pages n\<close> from it.
\<close>

definition demo_client :: Client where
  "demo_client =
     \<lparr>Host = ''h'', Path = ''/p'', Key = ''k'', Secret = ''s'', lastCall = zero_Time,
      debug = False\<rparr>"

definition sim_api :: "(nat \<Rightarrow> pg_fields) \<Rightarrow> unit api" where
  "sim_api pages =
     \<lparr>api_lib = plain_lib, api_client = demo_client,
      unmarshal_message = (\<lambda>b. Inr b),
      unmarshal_parent = (\<lambda>b. Inr ()),
      unmarshal_pg = (\<lambda>b. Inr (pages (length b))),
      exchange = (\<lambda>calls c. Inr (replicate (length calls) CHR ''x'', 200))\<rparr>"

text \<open>
  A cursor-mode server with \<open>N\<close> pages that have a next page and a last one that has
  none; an offset-mode server that reports a total count; and a server whose first answer
  has no cursor and whose later answers have one.
\<close>

definition cursor_pages :: "nat \<Rightarrow> nat \<Rightarrow> pg_fields" where
  "cursor_pages N n = \<lparr>HasNext = (n < N), Cursor = ''c'' @ itoa (int n), NumProducts = 0\<rparr>"

definition offset_pages :: "int \<Rightarrow> nat \<Rightarrow> pg_fields" where
  "offset_pages tot n = \<lparr>HasNext = False, Cursor = [], NumProducts = tot\<rparr>"

definition switching_pages :: "nat \<Rightarrow> pg_fields" where
  "switching_pages n =
     (if n = 0 then \<lparr>HasNext = False, Cursor = [], NumProducts = 120\<rparr>
      else \<lparr>HasNext = True, Cursor = ''abc'', NumProducts = 120\<rparr>)"

text \<open>Parameters for \<^verbatim>\<open>ListOrders\<close> that name a product, two statuses and no limit.\<close>

definition open_orders :: ListOrdersParameters where
  "open_orders =
     \<lparr>lo_Product = ''BTC-USD'', lo_Type = [], lo_Side = [],
      lo_Status = [''OPEN'', ''FILLED''], lo_StartDate = zero_Time, lo_EndDate = zero_Time,
      lo_UserNativeCurrency = [], lo_ProductType = [], lo_Limit = - 3\<rparr>"

section \<open>Properties of the parameter encoder\<close>

lemma add_field_zero: "fst f = [] \<or> is_zero (snd f) \<Longrightarrow> add_field lib u f = u"
  by (cases f, cases "snd f") (auto simp: add_field_def Let_def)

lemma foldl_add_field_zero: "all_zero fs \<Longrightarrow> foldl (add_field lib) u fs = u"
  by (induction fs arbitrary: u) (auto simp: all_zero_def add_field_zero)

lemma foldl_Add_new:
  "foldl (\<lambda>u' x. Add u' tag x) [(tag, vs)] xs = [(tag, vs @ xs)]"
  by (induction xs arbitrary: vs) auto

lemma foldl_Add_empty:
  "xs \<noteq> [] \<Longrightarrow> foldl (\<lambda>u' x. Add u' tag x) [] xs = [(tag, xs)]"
  by (cases xs) (auto simp: foldl_Add_new)

lemma Encode_empty: "Encode lib [] = []"
  by (simp add: Encode_def)

lemma add_field_keys:
  "tag \<noteq> [] \<Longrightarrow> keys (add_field lib [] (tag, v)) = (if is_zero v then [] else [tag])"
  by (cases v) (auto simp: add_field_def keys_def foldl_Add_empty)

lemma add_field_nonzero:
  assumes "tag \<noteq> []" "\<not> is_zero v"
  shows "\<exists>vs. vs \<noteq> [] \<and> add_field lib [] (tag, v) = [(tag, vs)]"
  using assms by (cases v) (auto simp: add_field_def foldl_Add_empty)

lemma write_pair_nonempty: "write_pair lib buf kv \<noteq> []"
  by (simp add: write_pair_def)

lemma foldl_write_pair_nonempty:
  "buf \<noteq> [] \<or> xs \<noteq> [] \<Longrightarrow> foldl (write_pair lib) buf xs \<noteq> []"
  by (induction xs arbitrary: buf) (auto simp: write_pair_nonempty)

lemma Encode_one_key: "vs \<noteq> [] \<Longrightarrow> Encode lib [(tag, vs)] \<noteq> []"
  by (simp add: Encode_def foldl_write_pair_nonempty)

text \<open>
  C4 (zero-omission). A struct whose tagged fields all hold their zero value encodes to
  no key at all, and to the empty query string. When exactly one field \<open>(tag, v)\<close> with
  a tag stands among such fields, the encoding has the single key \<open>tag\<close> if \<open>v\<close> is
  not the zero value, and no key if it is, and the query string is empty exactly when
  \<open>v\<close> is the zero value; the zero value is the empty string, the integer 0, the empty
  slice, the zero time, and a decimal whose coefficient is 0.
\<close>

theorem parametersToValues_zero_omission:
  assumes "all_zero pre" and "all_zero post" and "tag \<noteq> []"
  shows "(\<exists>u. parametersToValues lib (Struct (pre @ post)) = Inr u \<and>
              keys u = [] \<and> Encode lib u = []) \<and>
         (\<exists>u. parametersToValues lib (Struct (pre @ (tag, v) # post)) = Inr u \<and>
              keys u = (if is_zero v then [] else [tag]) \<and>
              (Encode lib u = [] \<longleftrightarrow> is_zero v)) \<and>
         (is_zero (VString s) \<longleftrightarrow> s = []) \<and>
         (is_zero (VInt i) \<longleftrightarrow> i = 0) \<and>
         (is_zero (VSlice xs) \<longleftrightarrow> xs = []) \<and>
         (is_zero (VTime t) \<longleftrightarrow> Time_IsZero t) \<and>
         (is_zero (VDecimal d) \<longleftrightarrow> d_value d = 0)"
proof -
  have both: "all_zero (pre @ post)"
    using assms(1,2) by (simp add: all_zero_def)
  have one: "foldl (add_field lib) [] (pre @ (tag, v) # post) = add_field lib [] (tag, v)"
  proof -
    have "foldl (add_field lib) [] (pre @ (tag, v) # post) =
          foldl (add_field lib) (add_field lib (foldl (add_field lib) [] pre) (tag, v)) post"
      by simp
    also have "\<dots> = foldl (add_field lib) (add_field lib [] (tag, v)) post"
      using assms(1) by (simp add: foldl_add_field_zero)
    also have "\<dots> = add_field lib [] (tag, v)"
      using assms(2) by (rule foldl_add_field_zero)
    finally show ?thesis .
  qed
  have a: "parametersToValues lib (Struct (pre @ post)) = Inr []"
    using foldl_add_field_zero [OF both, of lib "[]"] by (simp add: parametersToValues_def)
  have r: "parametersToValues lib (Struct (pre @ (tag, v) # post)) =
             Inr (add_field lib [] (tag, v))"
    by (simp only: parametersToValues_def iface.case one)
  have k: "keys (add_field lib [] (tag, v)) = (if is_zero v then [] else [tag])"
    by (rule add_field_keys [OF assms(3)])
  have e: "Encode lib (add_field lib [] (tag, v)) = [] \<longleftrightarrow> is_zero v"
  proof (cases "is_zero v")
    case True
    then show ?thesis
      using add_field_zero [of "(tag, v)" lib "[]"] by (simp add: Encode_empty)
  next
    case False
    then show ?thesis
      using add_field_nonzero [OF assms(3) False, of lib] by (auto simp: Encode_one_key)
  qed
  show ?thesis
    using a r k e by (simp add: Encode_empty keys_def Decimal_IsZero_def)
qed

theorem parametersToValues_zero_omission_witness:
  "parametersToValues plain_lib
     (Struct [(''product_id'', VString []), (''hidden'', VOther),
              (''end_date'', VTime zero_Time), ([], VInt 7)]) = Inr [] \<and>
   parametersToValues plain_lib
     (Struct [(''product_id'', VString []), (''hidden'', VOther), (''limit'', VInt 50),
              (''end_date'', VTime zero_Time), ([], VInt 7)]) = Inr [(''limit'', [''50''])] \<and>
   Encode plain_lib [(''limit'', [''50''])] = ''limit=50''"
proof -
  have h1: "all_zero [(''product_id'', VString []), (''hidden'', VOther)]"
    by (simp add: all_zero_def)
  have h2: "all_zero [(''end_date'', VTime zero_Time), ([], VInt 7)]"
    by (simp add: all_zero_def Time_IsZero_def zero_Time_def)
  have h3: "''limit'' \<noteq> []" by simp
  have v: "parametersToValues plain_lib
     (Struct [(''product_id'', VString []), (''hidden'', VOther), (''limit'', VInt 50),
              (''end_date'', VTime zero_Time), ([], VInt 7)]) = Inr [(''limit'', [''50''])]"
    by (simp add: parametersToValues_def add_field_def Time_IsZero_def zero_Time_def
        itoa_def digits.simps)
  have z: "parametersToValues plain_lib
     (Struct [(''product_id'', VString []), (''hidden'', VOther),
              (''end_date'', VTime zero_Time), ([], VInt 7)]) = Inr []"
    by (simp add: parametersToValues_def add_field_def Time_IsZero_def zero_Time_def)
  have q: "Encode plain_lib [(''limit'', [''50''])] = ''limit=50''"
    by (simp add: Encode_def write_pair_def plain_lib_def)
  show ?thesis
    using parametersToValues_zero_omission [OF h1 h2 h3, of plain_lib "VInt 50"] z v q
    by simp
qed

section \<open>Properties of the client\<close>

lemma length_hextable: "length hextable = 16"
  by (simp add: hextable_def)

lemma hex_digit_mem: "n < 16 \<Longrightarrow> hextable ! n \<in> set hextable"
  by (rule nth_mem) (simp only: length_hextable)

lemma EncodeToString_length: "length (EncodeToString src) = 2 * length src"
  by (induction src) (simp_all add: EncodeToString_def)

lemma EncodeToString_lowercase: "set (EncodeToString src) \<subseteq> set hextable"
proof (induction src)
  case Nil
  then show ?case by (simp add: EncodeToString_def)
next
  case (Cons b src)
  have hi: "(of_char b :: nat) div 16 < 16"
  proof -
    have "(of_char b :: nat) < 16 * 16"
      using nat_of_char_less_256 [of b] by simp
    then show ?thesis
      by (simp only: less_mult_imp_div_less)
  qed
  have lo: "(of_char b :: nat) mod 16 < 16" by simp
  show ?case
    using Cons hex_digit_mem [OF hi] hex_digit_mem [OF lo]
    by (simp add: EncodeToString_def)
qed

text \<open>
  C1 (credential resolution), as the code has it. Every field of the new client is the
  environment variable when that is not empty; otherwise the field of the configuration
  (nothing, for a nil configuration) when that is not empty; otherwise the default, which
  is \<^verbatim>\<open>https://coinbase.com\<close> for the host, \<^verbatim>\<open>/api/v3/brokerage\<close> for the path
  and the empty string for the key and the secret.
\<close>

theorem NewClient_precedence:
  "Host (NewClient getenv now config) =
     (if getenv ''COINBASE_HOST'' \<noteq> [] then getenv ''COINBASE_HOST''
      else if (case config of None \<Rightarrow> [] | Some cfg \<Rightarrow> cfg_Host cfg) \<noteq> []
      then (case config of None \<Rightarrow> [] | Some cfg \<Rightarrow> cfg_Host cfg)
      else ''https://coinbase.com'') \<and>
   Path (NewClient getenv now config) =
     (if getenv ''COINBASE_PATH'' \<noteq> [] then getenv ''COINBASE_PATH''
      else if (case config of None \<Rightarrow> [] | Some cfg \<Rightarrow> cfg_Path cfg) \<noteq> []
      then (case config of None \<Rightarrow> [] | Some cfg \<Rightarrow> cfg_Path cfg)
      else ''/api/v3/brokerage'') \<and>
   Key (NewClient getenv now config) =
     (if getenv ''COINBASE_KEY'' \<noteq> [] then getenv ''COINBASE_KEY''
      else (case config of None \<Rightarrow> [] | Some cfg \<Rightarrow> cfg_Key cfg)) \<and>
   Secret (NewClient getenv now config) =
     (if getenv ''COINBASE_SECRET'' \<noteq> [] then getenv ''COINBASE_SECRET''
      else (case config of None \<Rightarrow> [] | Some cfg \<Rightarrow> cfg_Secret cfg))"
  by (cases config) (simp_all add: NewClient_def fill_empty_def Let_def)

text \<open>
  C1 as the specification words it fails: with a host both in the configuration and in
  the environment, the client takes the environment's.
\<close>

theorem NewClient_config_first_counterexample:
  "cfg_Host \<lparr>cfg_Host = ''https://sandbox.example'', cfg_Path = [], cfg_Key = ''k'',
             cfg_Secret = ''s''\<rparr> \<noteq> [] \<and>
   Host (NewClient (\<lambda>name. if name = ''COINBASE_HOST'' then ''https://env.example'' else [])
           zero_Time
           (Some \<lparr>cfg_Host = ''https://sandbox.example'', cfg_Path = [], cfg_Key = ''k'',
                  cfg_Secret = ''s''\<rparr>))
     = ''https://env.example'' \<and>
   Host (NewClient (\<lambda>name. if name = ''COINBASE_HOST'' then ''https://env.example'' else [])
           zero_Time
           (Some \<lparr>cfg_Host = ''https://sandbox.example'', cfg_Path = [], cfg_Key = ''k'',
                  cfg_Secret = ''s''\<rparr>))
     \<noteq> ''https://sandbox.example''"
  by (simp add: NewClient_def fill_empty_def Let_def)

text \<open>
  C6 (signature). When the write into the hash reports no error, \<^verbatim>\<open>sign\<close> returns the
  hexadecimal form of the library's HMAC, keyed by the client's secret, of the timestamp,
  the method, the resource path and the body one after the other with nothing between
  them; the result has two characters for every byte of the digest, all of them among
  \<^verbatim>\<open>0123456789abcdef\<close>. The result is a function of these inputs alone.
\<close>

theorem sign_hmac_hex:
  assumes "hmac_Write lib (Secret c) (timestamp @ m @ resource @ data) = None"
  shows "sign lib c timestamp m resource data =
           Inr (EncodeToString (hmac_Sum lib (Secret c) (timestamp @ m @ resource @ data))) \<and>
         (\<forall>sig. sign lib c timestamp m resource data = Inr sig \<longrightarrow>
            set sig \<subseteq> set ''0123456789abcdef'' \<and>
            length sig = 2 * length (hmac_Sum lib (Secret c) (timestamp @ m @ resource @ data)))"
  using assms EncodeToString_lowercase EncodeToString_length
  by (auto simp: sign_def Let_def hextable_def)

theorem sign_hmac_hex_witness:
  "hmac_Write plain_lib ''k'' (''1'' @ Get @ ''/a'' @ ''{}'') = None \<and>
   sign plain_lib
     \<lparr>Host = ''h'', Path = ''/p'', Key = ''id'', Secret = ''k'', lastCall = zero_Time,
      debug = False\<rparr> ''1'' Get ''/a'' ''{}''
   = Inr ''6b314745542f617b7d''"
proof -
  let ?c = "\<lparr>Host = ''h'', Path = ''/p'', Key = ''id'', Secret = ''k'', lastCall = zero_Time,
             debug = False\<rparr>"
  have h: "hmac_Write plain_lib (Secret ?c) (''1'' @ Get @ ''/a'' @ ''{}'') = None"
    by (simp add: plain_lib_def)
  have e: "EncodeToString ''k1GET/a{}'' = ''6b314745542f617b7d''"
    by (simp add: EncodeToString_def hextable_def)
  show ?thesis
    using sign_hmac_hex [OF h] e by (simp add: plain_lib_def Get_def)
qed

text \<open>
  C5 (error surfacing), as the code has it. A response whose status is not 200 is
  returned as an error. When the body decodes as a message, the error's text is
  \<^verbatim>\<open>api response: \<close> followed by that message; when it does not, the text is
  \<^verbatim>\<open>api response: \<close> followed by the status code in parentheses, a space and the raw
  body. In both cases a note that the key or the secret is missing follows when one of
  them is empty.
\<close>

theorem Request_error_message:
  assumes "StatusCode \<noteq> 200"
  shows "\<exists>err. Request um c (Inr (data, StatusCode)) result pagination = Inl err \<and>
           (\<forall>msg. um data = Inr msg \<longrightarrow>
              Error err = ''api response: '' @ msg @
                (if Key c = [] \<or> Secret c = [] then '' [API key or secret is missing]'' else [])) \<and>
           (\<forall>e. um data = Inl e \<longrightarrow>
              Error err = ''api response: ('' @ itoa StatusCode @ '') '' @ data @
                (if Key c = [] \<or> Secret c = [] then '' [API key or secret is missing]'' else []))"
  using assms by (auto simp: Request_def Let_def formatError_def split: sum.splits)

theorem Request_error_message_witness:
  \<open>\<exists>err. Request (\<lambda>b. if b = ''{"message":"bad request"}'' then Inr ''bad request''
                     else Inl (errors_New ''invalid character''))
            demo_client (Inr (''<html>'', 400))
            (None :: (string \<Rightarrow> error + unit) option)
            (None :: (string \<Rightarrow> error + unit) option) = Inl err \<and>
         Error err = ''api response: (400) <html>''\<close>
proof -
  let ?um = \<open>\<lambda>b. if b = ''{"message":"bad request"}'' then Inr ''bad request''
                else Inl (errors_New ''invalid character'') :: error + string\<close>
  have h: "(400 :: int) \<noteq> 200" by simp
  have d: "?um ''<html>'' = Inl (errors_New ''invalid character'')" by simp
  have k: "Key demo_client \<noteq> [] \<and> Secret demo_client \<noteq> []"
    by (simp add: demo_client_def)
  have n: "itoa 400 = ''400''"
    by (simp add: itoa_def digits.simps)
  from Request_error_message [where um = ?um and c = demo_client and data = "''<html>''"
      and result = "None :: (string \<Rightarrow> error + unit) option"
      and pagination = "None :: (string \<Rightarrow> error + unit) option", OF h]
  obtain err where
    "Request ?um demo_client (Inr (''<html>'', 400))
       (None :: (string \<Rightarrow> error + unit) option)
       (None :: (string \<Rightarrow> error + unit) option) = Inl err"
    and "\<forall>e. ?um ''<html>'' = Inl e \<longrightarrow>
           Error err = ''api response: ('' @ itoa 400 @ '') '' @ ''<html>'' @
             (if Key demo_client = [] \<or> Secret demo_client = []
              then '' [API key or secret is missing]'' else [])"
    by blast
  then show ?thesis
    using d k n by auto
qed

text \<open>
  C5 as the specification words it fails: the body \<^verbatim>\<open>{"message":"bad request"}\<close> with
  status 400 gives an error whose text is not the message alone.
\<close>

theorem Request_exact_message_counterexample:
  \<open>\<exists>err. Request (\<lambda>b. if b = ''{"message":"bad request"}'' then Inr ''bad request''
                     else Inl (errors_New ''invalid character''))
            demo_client (Inr (''{"message":"bad request"}'', 400))
            (None :: (string \<Rightarrow> error + unit) option)
            (None :: (string \<Rightarrow> error + unit) option) = Inl err \<and>
         Error err = ''api response: bad request'' \<and> Error err \<noteq> ''bad request''\<close>
  by (simp add: Request_def Let_def formatError_def demo_client_def)

section \<open>Properties of pagination\<close>

lemma values_of_Add:
  "values_of (Add u k v) k' = (if k' = k then values_of u k @ [v] else values_of u k')"
  by (induction u) auto

lemma values_of_foldl_Add:
  "values_of (foldl (\<lambda>u' x. Add u' tag x) u xs) k =
     (if k = tag then values_of u k @ xs else values_of u k)"
  by (induction xs arbitrary: u) (auto simp: values_of_Add)

lemma values_of_add_field_other:
  "fst f \<noteq> k \<Longrightarrow> values_of (add_field lib u f) k = values_of u k"
  by (cases f, cases "snd f")
     (auto simp: add_field_def Let_def values_of_Add values_of_foldl_Add)

lemma values_of_add_field_int:
  "k \<noteq> [] \<Longrightarrow> values_of (add_field lib u (k, VInt i)) k =
     values_of u k @ (if i \<noteq> 0 then [itoa i] else [])"
  by (simp add: add_field_def values_of_Add)

lemma values_of_add_position_other:
  "k \<noteq> ''cursor'' \<Longrightarrow> k \<noteq> ''offset'' \<Longrightarrow> values_of (add_position p q) k = values_of q k"
  by (simp add: add_position_def values_of_Add)

lemma NextPage_noNext:
  "noNext p \<Longrightarrow> NextPage api p calls = (None, p\<lparr>end_flag := True\<rparr>, calls)"
  by (simp add: NextPage_def)

lemma NextPage_cursor_response:
  assumes "\<not> noNext p" and "parameters p = Struct fs"
    and "client_Request api calls (http_method p, endpoint p,
           add_position p (foldl (add_field (api_lib api)) [] fs)) = Inr (r, Some pg)"
    and "Cursor pg \<noteq> []"
  shows "NextPage api p calls =
           (None, p\<lparr>noNext := \<not> HasNext pg, cursor := Cursor pg\<rparr>,
            calls @ [(http_method p, endpoint p,
                     add_position p (foldl (add_field (api_lib api)) [] fs))])"
  using assms by (simp add: NextPage_def parametersToValues_def Let_def)

lemma NextPage_offset_response:
  assumes "\<not> noNext p" and "parameters p = Struct fs"
    and "client_Request api calls (http_method p, endpoint p,
           add_position p (foldl (add_field (api_lib api)) [] fs)) = Inr (r, Some pg)"
    and "Cursor pg = []" and "limit p \<noteq> 0"
  shows "NextPage api p calls =
           (None,
            p\<lparr>noNext := (NumProducts pg \<le> wrap64 (offset p + limit p)), cursor := [],
              offset := wrap64 (offset p + limit p)\<rparr>,
            calls @ [(http_method p, endpoint p,
                     add_position p (foldl (add_field (api_lib api)) [] fs))])"
  using assms by (simp add: NextPage_def parametersToValues_def Let_def)

lemma NextPage_no_limit:
  assumes "\<not> noNext p" and "parameters p = Struct fs"
    and "client_Request api calls (http_method p, endpoint p,
           add_position p (foldl (add_field (api_lib api)) [] fs)) = Inr (r, Some pg)"
    and "Cursor pg = []" and "limit p = 0"
  shows "NextPage api p calls =
           (Some (errors_New ''no limit specified for offset pagination''),
            p\<lparr>noNext := \<not> HasNext pg, cursor := []\<rparr>,
            calls @ [(http_method p, endpoint p,
                     add_position p (foldl (add_field (api_lib api)) [] fs))])"
  using assms by (simp add: NextPage_def parametersToValues_def Let_def)

lemma NextPage_frame:
  "NextPage api p calls = (e, p', calls') \<Longrightarrow>
     parameters p' = parameters p \<and> limit p' = limit p \<and>
     http_method p' = http_method p \<and> endpoint p' = endpoint p"
  by (auto simp: NextPage_def Let_def split: if_splits sum.splits prod.splits option.splits)

lemma call_NextPage_noNext:
  "noNext (page s) \<Longrightarrow>
     call_NextPage api s =
       \<lparr>returned = returned s @ [None], page = (page s)\<lparr>end_flag := True\<rparr>, sent = sent s\<rparr>"
  by (simp add: call_NextPage_def NextPage_noNext)







lemma offset_120_step:
  assumes srv: "\<And>calls c. \<exists>r pg. client_Request api calls c = Inr (r, Some pg) \<and>
                  Cursor pg = [] \<and> NumProducts pg = 120"
    and s: "\<not> noNext (page s)" "parameters (page s) = Struct fs" "limit (page s) = 50"
  shows "call_NextPage api s =
           \<lparr>returned = returned s @ [None],
            page = (page s)\<lparr>noNext := (120 \<le> wrap64 (offset (page s) + 50)), cursor := [],
                            offset := wrap64 (offset (page s) + 50)\<rparr>,
            sent = sent s @ [(http_method (page s), endpoint (page s),
                     add_position (page s) (foldl (add_field (api_lib api)) [] fs))]\<rparr>"
proof -
  let ?c = "(http_method (page s), endpoint (page s),
             add_position (page s) (foldl (add_field (api_lib api)) [] fs))"
  from srv [of "sent s" ?c] obtain r pg where
    resp: "client_Request api (sent s) ?c = Inr (r, Some pg)"
    and cur: "Cursor pg = []" and num: "NumProducts pg = 120"
    by auto
  have lim: "limit (page s) \<noteq> 0" using s(3) by simp
  show ?thesis
    using NextPage_offset_response [OF s(1) s(2) resp cur lim] num s(3)
    by (simp add: call_NextPage_def)
qed

lemma call_NextPage_ended:
  "noNext (page s) \<Longrightarrow>
     (call_NextPage api ^^ Suc k) s =
       \<lparr>returned = returned s @ replicate (Suc k) None, page = (page s)\<lparr>end_flag := True\<rparr>,
        sent = sent s\<rparr>"
proof (induction k)
  case 0
  then show ?case by (simp add: call_NextPage_noNext)
next
  case (Suc k)
  let ?t = "\<lparr>returned = returned s @ replicate (Suc k) None,
             page = (page s)\<lparr>end_flag := True\<rparr>, sent = sent s\<rparr>"
  have nn: "noNext (page ?t)" using Suc.prems by simp
  have "(call_NextPage api ^^ Suc (Suc k)) s = call_NextPage api ?t"
    using Suc by simp
  also have "\<dots> = \<lparr>returned = returned ?t @ [None], page = (page ?t)\<lparr>end_flag := True\<rparr>,
                    sent = sent ?t\<rparr>"
    by (rule call_NextPage_noNext [OF nn])
  finally show ?case
    by (simp add: replicate_append_same)
qed

lemma itoa_50: "itoa 50 = ''50''"
  by (simp add: itoa_def digits.simps)

lemma itoa_100: "itoa 100 = ''100''"
  by (simp add: itoa_def digits.simps)

lemma offset_120_run:
  fixes api :: "'r api" and ty :: string
  assumes srv: "\<And>calls c. \<exists>r pg. client_Request api calls c = Inr (r, Some pg) \<and>
                  Cursor pg = [] \<and> NumProducts pg = 120"
  defines "fs \<equiv> [(''limit'', VInt 50), (''product_type'', VString ty)]"
  defines "q \<equiv> foldl (add_field (api_lib api)) [] fs"
  defines "P \<equiv> \<lambda>off nn ef. \<lparr>parameters = Struct fs, http_method = Get,
      endpoint = listProductsEndpoint, noNext = nn, end_flag = ef, cursor = [], limit = 50,
      offset = off\<rparr>"
  defines "c0 \<equiv> (Get, listProductsEndpoint, q)"
  defines "c1 \<equiv> (Get, listProductsEndpoint, Add q ''offset'' ''50'')"
  defines "c2 \<equiv> (Get, listProductsEndpoint, Add q ''offset'' ''100'')"
  defines "run \<equiv> \<lambda>k. (call_NextPage api ^^ k) (ListProducts api \<lparr>lp_Limit = 50, lp_Type = ty\<rparr>)"
  shows "run 0 = \<lparr>returned = [None], page = P 50 False False, sent = [c0]\<rparr>"
    and "run 1 = \<lparr>returned = [None, None], page = P 100 False False, sent = [c0, c1]\<rparr>"
    and "run 2 = \<lparr>returned = [None, None, None], page = P 150 True False, sent = [c0, c1, c2]\<rparr>"
    and "run (3 + k) = \<lparr>returned = replicate (4 + k) None, page = P 150 True True,
                         sent = [c0, c1, c2]\<rparr>"
proof -
  have r0: "run 0 = \<lparr>returned = [None], page = P 50 False False, sent = [c0]\<rparr>"
  proof -
    let ?s = "\<lparr>returned = [], page = P 0 False False, sent = []\<rparr>"
    have "run 0 = call_NextPage api ?s"
      by (simp add: run_def ListProducts_def start_list_def Pagination_literal_def
          reflect_ListProductsParameters_def P_def fs_def)
    also have "\<dots> = \<lparr>returned = [None], page = P 50 False False, sent = [c0]\<rparr>"
      using offset_120_step [OF srv, of ?s fs]
      by (simp add: P_def c0_def add_position_def wrap64_def q_def)
    finally show ?thesis .
  qed
  have r1: "run 1 = \<lparr>returned = [None, None], page = P 100 False False, sent = [c0, c1]\<rparr>"
  proof -
    let ?s = "\<lparr>returned = [None], page = P 50 False False, sent = [c0]\<rparr>"
    have "run 1 = call_NextPage api ?s"
      using r0 by (simp add: run_def)
    also have "\<dots> = \<lparr>returned = [None, None], page = P 100 False False, sent = [c0, c1]\<rparr>"
      using offset_120_step [OF srv, of ?s fs]
      by (simp add: P_def c1_def add_position_def wrap64_def q_def itoa_50)
    finally show ?thesis .
  qed
  have r2: "run 2 = \<lparr>returned = [None, None, None], page = P 150 True False,
                      sent = [c0, c1, c2]\<rparr>"
  proof -
    let ?s = "\<lparr>returned = [None, None], page = P 100 False False, sent = [c0, c1]\<rparr>"
    have "run 2 = call_NextPage api (run 1)"
      by (simp add: run_def numeral_2_eq_2)
    also have "\<dots> = call_NextPage api ?s"
      using r1 by simp
    also have "\<dots> = \<lparr>returned = [None, None, None], page = P 150 True False,
                      sent = [c0, c1, c2]\<rparr>"
      using offset_120_step [OF srv, of ?s fs]
      by (simp add: P_def c2_def add_position_def wrap64_def q_def itoa_100)
    finally show ?thesis .
  qed
  have r3: "run (3 + k) = \<lparr>returned = replicate (4 + k) None, page = P 150 True True,
                         sent = [c0, c1, c2]\<rparr>"
  proof -
    let ?s = "\<lparr>returned = [None, None, None], page = P 150 True False, sent = [c0, c1, c2]\<rparr>"
    have nn: "noNext (page ?s)" by (simp add: P_def)
    have "run (3 + k) = (call_NextPage api ^^ Suc k) (run 2)"
      by (simp add: run_def numeral_2_eq_2 numeral_3_eq_3 funpow_add funpow_swap1)
    also have "\<dots> = (call_NextPage api ^^ Suc k) ?s"
      using r2 by simp
    also have "\<dots> = \<lparr>returned = returned ?s @ replicate (Suc k) None,
                      page = (page ?s)\<lparr>end_flag := True\<rparr>, sent = sent ?s\<rparr>"
      by (rule call_NextPage_ended [OF nn])
    also have "\<dots> = \<lparr>returned = replicate (4 + k) None, page = P 150 True True,
                      sent = [c0, c1, c2]\<rparr>"
      by (simp add: P_def numeral_eq_Suc)
    finally show ?thesis .
  qed
  show "run 0 = \<lparr>returned = [None], page = P 50 False False, sent = [c0]\<rparr>" by (rule r0)
  show "run 1 = \<lparr>returned = [None, None], page = P 100 False False, sent = [c0, c1]\<rparr>"
    by (rule r1)
  show "run 2 = \<lparr>returned = [None, None, None], page = P 150 True False, sent = [c0, c1, c2]\<rparr>"
    by (rule r2)
  show "run (3 + k) = \<lparr>returned = replicate (4 + k) None, page = P 150 True True,
                         sent = [c0, c1, c2]\<rparr>"
    by (rule r3)
qed

lemma sim_offset_server:
  "\<exists>r pg. client_Request (sim_api (offset_pages tot)) calls c = Inr (r, Some pg) \<and>
          Cursor pg = [] \<and> NumProducts pg = tot"
  by (simp add: client_Request_def Request_def sim_api_def offset_pages_def)

text \<open>
  C7 (offset-mode exhaustion), as the code has it. \<^verbatim>\<open>ListProducts\<close> with limit 50
  against a server whose answers carry no cursor and report a total of 120: the list
  operation and the two calls of \<^verbatim>\<open>NextPage\<close> after it issue three requests, the first
  without an offset parameter (the offset is 0), the next two with offsets 50 and 100;
  the offset stored after each answer is 50, 100 and 150, and \<open>noNext\<close> is set by the
  third answer only. \<^verbatim>\<open>Next()\<close> is still true after the third answer; the fourth call
  issues no request and makes \<^verbatim>\<open>Next()\<close> false, and so it stays. In general an answer
  without a cursor, on a list with a limit other than 0, adds the limit to the offset (in
  64-bit arithmetic) and sets \<open>noNext\<close> exactly when the new offset has reached the
  total the answer reports.
\<close>

theorem offset_pagination_50_120:
  fixes api :: "'r api" and ty :: string
  assumes srv: "\<And>calls c. \<exists>r pg. client_Request api calls c = Inr (r, Some pg) \<and>
                  Cursor pg = [] \<and> NumProducts pg = 120"
  defines "L \<equiv> ListProducts api \<lparr>lp_Limit = 50, lp_Type = ty\<rparr>"
  shows "map (\<lambda>c. values_of (snd (snd c)) ''offset'') (sent ((call_NextPage api ^^ 2) L))
           = [[], [''50''], [''100'']] \<and>
         offset (page L) = 50 \<and> \<not> noNext (page L) \<and>
         offset (page ((call_NextPage api ^^ 1) L)) = 100 \<and>
         \<not> noNext (page ((call_NextPage api ^^ 1) L)) \<and>
         offset (page ((call_NextPage api ^^ 2) L)) = 150 \<and>
         noNext (page ((call_NextPage api ^^ 2) L)) \<and>
         Next (page ((call_NextPage api ^^ 2) L)) \<and>
         (\<forall>k. sent ((call_NextPage api ^^ (3 + k)) L) = sent ((call_NextPage api ^^ 2) L) \<and>
              \<not> Next (page ((call_NextPage api ^^ (3 + k)) L)) \<and>
              returned ((call_NextPage api ^^ (3 + k)) L) = replicate (4 + k) None) \<and>
         (\<forall>p calls fs r pg.
            \<not> noNext p \<and> parameters p = Struct fs \<and>
            client_Request api calls (http_method p, endpoint p,
              add_position p (foldl (add_field (api_lib api)) [] fs)) = Inr (r, Some pg) \<and>
            Cursor pg = [] \<and> limit p \<noteq> 0 \<longrightarrow>
            (\<exists>p' calls'. NextPage api p calls = (None, p', calls') \<and>
               offset p' = wrap64 (offset p + limit p) \<and>
               noNext p' = (NumProducts pg \<le> offset p')))"
proof -
  note run = offset_120_run [where ty = ty, OF srv, folded L_def]
  have a: "map (\<lambda>c. values_of (snd (snd c)) ''offset'') (sent ((call_NextPage api ^^ 2) L))
           = [[], [''50''], [''100'']]"
    by (simp only: run(3)) (simp add: values_of_Add values_of_add_field_other)
  have b: "offset (page L) = 50 \<and> \<not> noNext (page L)"
    using run(1) by simp
  have c: "offset (page ((call_NextPage api ^^ 1) L)) = 100 \<and>
           \<not> noNext (page ((call_NextPage api ^^ 1) L))"
    by (simp only: run(2)) simp
  have d: "offset (page ((call_NextPage api ^^ 2) L)) = 150 \<and>
         noNext (page ((call_NextPage api ^^ 2) L)) \<and>
         Next (page ((call_NextPage api ^^ 2) L))"
    by (simp only: run(3)) (simp add: Next_def)
  have e: "\<And>k. sent ((call_NextPage api ^^ (3 + k)) L) = sent ((call_NextPage api ^^ 2) L) \<and>
              \<not> Next (page ((call_NextPage api ^^ (3 + k)) L)) \<and>
              returned ((call_NextPage api ^^ (3 + k)) L) = replicate (4 + k) None"
    by (simp only: run(3) run(4)) (simp add: Next_def)
  have f: "\<And>p calls fs r pg.
            \<not> noNext p \<and> parameters p = Struct fs \<and>
            client_Request api calls (http_method p, endpoint p,
              add_position p (foldl (add_field (api_lib api)) [] fs)) = Inr (r, Some pg) \<and>
            Cursor pg = [] \<and> limit p \<noteq> 0 \<Longrightarrow>
            (\<exists>p' calls'. NextPage api p calls = (None, p', calls') \<and>
               offset p' = wrap64 (offset p + limit p) \<and>
               noNext p' = (NumProducts pg \<le> offset p'))"
  proof -
    fix p calls fs r pg
    assume h: "\<not> noNext p \<and> parameters p = Struct fs \<and>
            client_Request api calls (http_method p, endpoint p,
              add_position p (foldl (add_field (api_lib api)) [] fs)) = Inr (r, Some pg) \<and>
            Cursor pg = [] \<and> limit p \<noteq> 0"
    then have "NextPage api p calls =
           (None,
            p\<lparr>noNext := (NumProducts pg \<le> wrap64 (offset p + limit p)), cursor := [],
              offset := wrap64 (offset p + limit p)\<rparr>,
            calls @ [(http_method p, endpoint p,
                     add_position p (foldl (add_field (api_lib api)) [] fs))])"
      by (intro NextPage_offset_response) simp_all
    then show "\<exists>p' calls'. NextPage api p calls = (None, p', calls') \<and>
               offset p' = wrap64 (offset p + limit p) \<and>
               noNext p' = (NumProducts pg \<le> offset p')"
      by simp
  qed
  show ?thesis
    using a b c d e f by blast
qed

theorem offset_pagination_50_120_witness:
  "map (\<lambda>c. values_of (snd (snd c)) ''offset'')
     (sent ((call_NextPage (sim_api (offset_pages 120)) ^^ 2)
        (ListProducts (sim_api (offset_pages 120)) \<lparr>lp_Limit = 50, lp_Type = []\<rparr>)))
     = [[], [''50''], [''100'']] \<and>
   Next (page ((call_NextPage (sim_api (offset_pages 120)) ^^ 2)
        (ListProducts (sim_api (offset_pages 120)) \<lparr>lp_Limit = 50, lp_Type = []\<rparr>))) \<and>
   \<not> Next (page ((call_NextPage (sim_api (offset_pages 120)) ^^ 3)
        (ListProducts (sim_api (offset_pages 120)) \<lparr>lp_Limit = 50, lp_Type = []\<rparr>)))"
proof -
  have srv: "\<And>calls c. \<exists>r pg. client_Request (sim_api (offset_pages 120)) calls c = Inr (r, Some pg) \<and>
                  Cursor pg = [] \<and> NumProducts pg = 120"
    by (rule sim_offset_server)
  have "\<not> Next (page ((call_NextPage (sim_api (offset_pages 120)) ^^ (3 + 0))
        (ListProducts (sim_api (offset_pages 120)) \<lparr>lp_Limit = 50, lp_Type = []\<rparr>)))"
    using offset_pagination_50_120 [where ty = "[]", OF srv] by blast
  then show ?thesis
    using offset_pagination_50_120 [where ty = "[]", OF srv] by simp
qed

text \<open>
  C7 as the specification words it fails: after the three requests at offsets 0, 50 and
  100 (three calls of \<^verbatim>\<open>NextPage\<close>), \<^verbatim>\<open>Next()\<close> is still true.
\<close>

theorem offset_pagination_Next_counterexample:
  "map (\<lambda>c. values_of (snd (snd c)) ''offset'')
     (sent ((call_NextPage (sim_api (offset_pages 120)) ^^ 2)
        (ListProducts (sim_api (offset_pages 120)) \<lparr>lp_Limit = 50, lp_Type = []\<rparr>)))
     = [[], [''50''], [''100'']] \<and>
   length (returned ((call_NextPage (sim_api (offset_pages 120)) ^^ 2)
        (ListProducts (sim_api (offset_pages 120)) \<lparr>lp_Limit = 50, lp_Type = []\<rparr>))) = 3 \<and>
   Next (page ((call_NextPage (sim_api (offset_pages 120)) ^^ 2)
        (ListProducts (sim_api (offset_pages 120)) \<lparr>lp_Limit = 50, lp_Type = []\<rparr>)))"
  by code_simp

lemma add_position_one:
  "values_of (add_position p q) ''cursor'' = values_of q ''cursor'' \<or>
   values_of (add_position p q) ''offset'' = values_of q ''offset''"
  by (simp add: add_position_def values_of_Add)

text \<open>
  C3 (pagination mode), as the code has it. A call of \<^verbatim>\<open>NextPage\<close> that gets an
  answer stores the answer's cursor, whatever the list did before. When that cursor is
  not empty the offset is left alone and the next request carries the cursor; when it is
  empty the offset step is taken (or, with the limit 0, the error is returned) and the
  next request carries the offset if it is positive. So the mode is decided anew by every
  answer, not once by the first. No request carries both a cursor and an offset added by
  the list.
\<close>

theorem pagination_mode_per_response:
  assumes "\<not> noNext p" and "parameters p = Struct fs"
    and "client_Request api calls (http_method p, endpoint p,
           add_position p (foldl (add_field (api_lib api)) [] fs)) = Inr (r, Some pg)"
  shows "(\<exists>e p'. NextPage api p calls =
             (e, p', calls @ [(http_method p, endpoint p,
                               add_position p (foldl (add_field (api_lib api)) [] fs))]) \<and>
           cursor p' = Cursor pg \<and>
           (Cursor pg \<noteq> [] \<longrightarrow>
              e = None \<and> offset p' = offset p \<and> noNext p' = (\<not> HasNext pg) \<and>
              (\<forall>q. add_position p' q = Add q ''cursor'' (Cursor pg))) \<and>
           (Cursor pg = [] \<and> limit p \<noteq> 0 \<longrightarrow>
              e = None \<and> offset p' = wrap64 (offset p + limit p) \<and>
              noNext p' = (NumProducts pg \<le> offset p') \<and>
              (\<forall>q. add_position p' q =
                 (if 0 < offset p' then Add q ''offset'' (itoa (offset p')) else q))) \<and>
           (Cursor pg = [] \<and> limit p = 0 \<longrightarrow>
              e = Some (errors_New ''no limit specified for offset pagination'') \<and>
              offset p' = offset p \<and> noNext p' = (\<not> HasNext pg))) \<and>
         (\<forall>q. values_of (add_position p q) ''cursor'' = values_of q ''cursor'' \<or>
              values_of (add_position p q) ''offset'' = values_of q ''offset'')"
proof -
  consider (cur) "Cursor pg \<noteq> []" | (off) "Cursor pg = []" "limit p \<noteq> 0"
    | (nolim) "Cursor pg = []" "limit p = 0"
    by blast
  then have "\<exists>e p'. NextPage api p calls =
             (e, p', calls @ [(http_method p, endpoint p,
                               add_position p (foldl (add_field (api_lib api)) [] fs))]) \<and>
           cursor p' = Cursor pg \<and>
           (Cursor pg \<noteq> [] \<longrightarrow>
              e = None \<and> offset p' = offset p \<and> noNext p' = (\<not> HasNext pg) \<and>
              (\<forall>q. add_position p' q = Add q ''cursor'' (Cursor pg))) \<and>
           (Cursor pg = [] \<and> limit p \<noteq> 0 \<longrightarrow>
              e = None \<and> offset p' = wrap64 (offset p + limit p) \<and>
              noNext p' = (NumProducts pg \<le> offset p') \<and>
              (\<forall>q. add_position p' q =
                 (if 0 < offset p' then Add q ''offset'' (itoa (offset p')) else q))) \<and>
           (Cursor pg = [] \<and> limit p = 0 \<longrightarrow>
              e = Some (errors_New ''no limit specified for offset pagination'') \<and>
              offset p' = offset p \<and> noNext p' = (\<not> HasNext pg))"
  proof cases
    case cur
    show ?thesis
      using NextPage_cursor_response [OF assms cur] cur
      by (simp add: add_position_def)
  next
    case off
    show ?thesis
      using NextPage_offset_response [OF assms off] off
      by (simp add: add_position_def)
  next
    case nolim
    show ?thesis
      using NextPage_no_limit [OF assms nolim] nolim
      by simp
  qed
  then show ?thesis
    using add_position_one by blast
qed

theorem pagination_mode_per_response_witness:
  "fst (NextPage (sim_api switching_pages)
     \<lparr>parameters = Struct [(''limit'', VInt 50)], http_method = Get,
      endpoint = listProductsEndpoint, noNext = False, end_flag = False, cursor = [],
      limit = 50, offset = 50\<rparr>
     [(Get, listProductsEndpoint, [(''limit'', [''50''])])]) = None \<and>
   cursor (fst (snd (NextPage (sim_api switching_pages)
     \<lparr>parameters = Struct [(''limit'', VInt 50)], http_method = Get,
      endpoint = listProductsEndpoint, noNext = False, end_flag = False, cursor = [],
      limit = 50, offset = 50\<rparr>
     [(Get, listProductsEndpoint, [(''limit'', [''50''])])]))) = ''abc'' \<and>
   snd (snd (NextPage (sim_api switching_pages)
     \<lparr>parameters = Struct [(''limit'', VInt 50)], http_method = Get,
      endpoint = listProductsEndpoint, noNext = False, end_flag = False, cursor = [],
      limit = 50, offset = 50\<rparr>
     [(Get, listProductsEndpoint, [(''limit'', [''50''])])])) =
     [(Get, listProductsEndpoint, [(''limit'', [''50''])]),
      (Get, listProductsEndpoint, [(''limit'', [''50'']), (''offset'', [''50''])])]"
proof -
  let ?p = "\<lparr>parameters = Struct [(''limit'', VInt 50)], http_method = Get,
      endpoint = listProductsEndpoint, noNext = False, end_flag = False, cursor = [],
      limit = 50, offset = 50\<rparr>"
  let ?calls = "[(Get, listProductsEndpoint, [(''limit'', [''50''])])]"
  have h1: "\<not> noNext ?p" by simp
  have h2: "parameters ?p = Struct [(''limit'', VInt 50)]" by simp
  have h3: "client_Request (sim_api switching_pages) ?calls (http_method ?p, endpoint ?p,
           add_position ?p (foldl (add_field (api_lib (sim_api switching_pages))) []
             [(''limit'', VInt 50)])) = Inr (Some (), Some (switching_pages 1))"
    by (simp add: client_Request_def Request_def sim_api_def)
  have c: "Cursor (switching_pages 1) = ''abc''" "HasNext (switching_pages 1)"
    by (simp_all add: switching_pages_def)
  show ?thesis
    using pagination_mode_per_response [OF h1 h2 h3] c
    by (auto simp: add_position_def add_field_def sim_api_def itoa_50)
qed

text \<open>
  C3 as the specification words it fails: the first answer has no cursor, so that the
  list steps its offset to 50 and sends it with the second request; the second answer
  has the cursor \<^verbatim>\<open>abc\<close>, and the third request carries that cursor and no offset.
\<close>

theorem pagination_mode_switch_counterexample:
  "cursor (page (ListProducts (sim_api switching_pages) \<lparr>lp_Limit = 50, lp_Type = []\<rparr>)) = [] \<and>
   offset (page (ListProducts (sim_api switching_pages) \<lparr>lp_Limit = 50, lp_Type = []\<rparr>)) = 50 \<and>
   map (\<lambda>c. (values_of (snd (snd c)) ''cursor'', values_of (snd (snd c)) ''offset''))
     (sent ((call_NextPage (sim_api switching_pages) ^^ 2)
        (ListProducts (sim_api switching_pages) \<lparr>lp_Limit = 50, lp_Type = []\<rparr>)))
     = [([], []), ([], [''50'']), ([''abc''], [])]"
  by code_simp

lemma NextPage_request_sent:
  "\<not> noNext p \<Longrightarrow> parameters p = Struct fs \<Longrightarrow>
     snd (snd (NextPage api p calls)) =
       calls @ [(http_method p, endpoint p,
                 add_position p (foldl (add_field (api_lib api)) [] fs))]"
  by (auto simp: NextPage_def parametersToValues_def Let_def split: sum.splits option.splits)

lemma NextPage_calls:
  "parameters p = Struct fs \<Longrightarrow>
     snd (snd (NextPage api p calls)) = calls \<or>
     snd (snd (NextPage api p calls)) =
       calls @ [(http_method p, endpoint p,
                 add_position p (foldl (add_field (api_lib api)) [] fs))]"
  by (cases "noNext p") (simp_all add: NextPage_noNext NextPage_request_sent)

lemma limit_kept_step:
  assumes "limit_kept api fs l s"
  shows "limit_kept api fs l (call_NextPage api s)"
proof -
  obtain e p' calls' where np: "NextPage api (page s) (sent s) = (e, p', calls')"
    by (cases "NextPage api (page s) (sent s)") auto
  from assms have par: "parameters (page s) = Struct fs" and lim: "limit (page s) = l"
    and old: "\<forall>c \<in> set (sent s). values_of (snd (snd c)) ''limit'' =
        values_of (foldl (add_field (api_lib api)) [] fs) ''limit''"
    by (simp_all add: limit_kept_def)
  have fr: "parameters p' = Struct fs" "limit p' = l"
    using NextPage_frame [OF np] par lim by simp_all
  have "calls' = sent s \<or>
        calls' = sent s @ [(http_method (page s), endpoint (page s),
                 add_position (page s) (foldl (add_field (api_lib api)) [] fs))]"
    using NextPage_calls [OF par, of api "sent s"] np by simp
  then have "\<forall>c \<in> set calls'. values_of (snd (snd c)) ''limit'' =
        values_of (foldl (add_field (api_lib api)) [] fs) ''limit''"
    using old by (auto simp: values_of_add_position_other)
  then show ?thesis
    using fr np by (simp add: limit_kept_def call_NextPage_def)
qed

lemma limit_kept_run:
  "limit_kept api fs l s \<Longrightarrow> limit_kept api fs l ((call_NextPage api ^^ k) s)"
  by (induction k) (simp_all add: limit_kept_step)

lemma limit_kept_start:
  "limit_kept api fs l (start_list api (Pagination_literal (Struct fs) l m ep))"
  unfolding start_list_def
  by (rule limit_kept_step) (simp add: limit_kept_def Pagination_literal_def)

lemma start_list_sent:
  "sent (start_list api (Pagination_literal (Struct fs) l m ep)) =
     [(m, ep, foldl (add_field (api_lib api)) [] fs)]"
proof -
  let ?p = "Pagination_literal (Struct fs) l m ep"
  have "snd (snd (NextPage api ?p [])) =
       [] @ [(http_method ?p, endpoint ?p,
                 add_position ?p (foldl (add_field (api_lib api)) [] fs))]"
    by (rule NextPage_request_sent) (simp_all add: Pagination_literal_def)
  then show ?thesis
    by (cases "NextPage api ?p []")
       (simp add: start_list_def call_NextPage_def Pagination_literal_def add_position_def)
qed

lemma ListOrders_limit_field:
  "values_of (foldl (add_field lib) []
     [(''product_id'', VString a), (''order_type'', VString b), (''order_side'', VString c),
      (''order_status'', VSlice d), (''start_date'', VTime e), (''end_date'', VTime f),
      (''user_native_currency'', VString g), (''product_type'', VString h),
      (''limit'', VInt 50)]) ''limit'' = [''50'']"
  by (simp add: values_of_add_field_other values_of_add_field_int itoa_50)

lemma ListProducts_limit_field:
  "values_of (foldl (add_field lib) []
     [(''limit'', VInt 100), (''product_type'', VString h)]) ''limit'' = [''100'']"
  by (simp add: values_of_add_field_other values_of_add_field_int itoa_100)

text \<open>
  C10 (default limits). \<^verbatim>\<open>ListOrders\<close> with a limit that is zero or negative issues
  its request, and every request of the list after it, with \<^verbatim>\<open>limit=50\<close>.
  \<^verbatim>\<open>ListProducts\<close> with such a limit issues its requests with \<^verbatim>\<open>limit=100\<close> and
  the page size of its list is 100. Whatever the limit given, the page size of a list
  made by \<^verbatim>\<open>ListProducts\<close> is positive, and stays so.
\<close>

theorem default_limits:
  fixes api :: "'r api"
  shows "(lo_Limit po \<le> 0 \<longrightarrow>
            (\<exists>q. sent (ListOrders api po) = [(Get, listOrdersEndpoint, q)]) \<and>
            (\<forall>k. \<forall>c \<in> set (sent ((call_NextPage api ^^ k) (ListOrders api po))).
               values_of (snd (snd c)) ''limit'' = [''50''])) \<and>
         (lp_Limit pp \<le> 0 \<longrightarrow>
            (\<exists>q. sent (ListProducts api pp) = [(Get, listProductsEndpoint, q)]) \<and>
            (\<forall>k. limit (page ((call_NextPage api ^^ k) (ListProducts api pp))) = 100 \<and>
               (\<forall>c \<in> set (sent ((call_NextPage api ^^ k) (ListProducts api pp))).
                  values_of (snd (snd c)) ''limit'' = [''100'']))) \<and>
         (\<forall>k. 0 < limit (page ((call_NextPage api ^^ k) (ListProducts api pp))) \<and>
              limit (page ((call_NextPage api ^^ k) (ListProducts api pp))) =
                (if lp_Limit pp \<le> 0 then 100 else lp_Limit pp))"
proof -
  have orders: "(\<exists>q. sent (ListOrders api po) = [(Get, listOrdersEndpoint, q)]) \<and>
            (\<forall>k. \<forall>c \<in> set (sent ((call_NextPage api ^^ k) (ListOrders api po))).
               values_of (snd (snd c)) ''limit'' = [''50''])" if le: "lo_Limit po \<le> 0"
  proof -
    let ?fs = "[(''product_id'', VString (lo_Product po)),
             (''order_type'', VString (lo_Type po)),
             (''order_side'', VString (lo_Side po)),
             (''order_status'', VSlice (lo_Status po)),
             (''start_date'', VTime (lo_StartDate po)),
             (''end_date'', VTime (lo_EndDate po)),
             (''user_native_currency'', VString (lo_UserNativeCurrency po)),
             (''product_type'', VString (lo_ProductType po)),
             (''limit'', VInt 50)]"
    have eq: "ListOrders api po =
        start_list api (Pagination_literal (Struct ?fs) 0 Get listOrdersEndpoint)"
      using le by (simp add: ListOrders_def reflect_ListOrdersParameters_def)
    have kept: "limit_kept api ?fs 0 ((call_NextPage api ^^ k) (ListOrders api po))" for k
      unfolding eq by (rule limit_kept_run) (rule limit_kept_start)
    have "\<forall>c \<in> set (sent ((call_NextPage api ^^ k) (ListOrders api po))).
               values_of (snd (snd c)) ''limit'' = [''50'']" for k
      using kept [of k] by (simp only: limit_kept_def ListOrders_limit_field) simp
    moreover have "\<exists>q. sent (ListOrders api po) = [(Get, listOrdersEndpoint, q)]"
      unfolding eq by (simp only: start_list_sent) simp
    ultimately show ?thesis by blast
  qed
  have products: "limit_kept api
      [(''limit'', VInt (if lp_Limit pp \<le> 0 then 100 else lp_Limit pp)),
       (''product_type'', VString (lp_Type pp))]
      (if lp_Limit pp \<le> 0 then 100 else lp_Limit pp)
      ((call_NextPage api ^^ k) (ListProducts api pp))
    \<and> (\<exists>q. sent (ListProducts api pp) = [(Get, listProductsEndpoint, q)])" for k
  proof -
    let ?l = "if lp_Limit pp \<le> 0 then 100 else lp_Limit pp"
    let ?fs = "[(''limit'', VInt ?l), (''product_type'', VString (lp_Type pp))]"
    have eq: "ListProducts api pp =
        start_list api (Pagination_literal (Struct ?fs) ?l Get listProductsEndpoint)"
      by (simp add: ListProducts_def reflect_ListProductsParameters_def Let_def)
    have "limit_kept api ?fs ?l ((call_NextPage api ^^ k) (ListProducts api pp))"
      unfolding eq by (rule limit_kept_run) (rule limit_kept_start)
    moreover have "\<exists>q. sent (ListProducts api pp) = [(Get, listProductsEndpoint, q)]"
      unfolding eq by (simp only: start_list_sent) simp
    ultimately show ?thesis by blast
  qed
  have p1: "(\<exists>q. sent (ListProducts api pp) = [(Get, listProductsEndpoint, q)]) \<and>
            (\<forall>k. limit (page ((call_NextPage api ^^ k) (ListProducts api pp))) = 100 \<and>
               (\<forall>c \<in> set (sent ((call_NextPage api ^^ k) (ListProducts api pp))).
                  values_of (snd (snd c)) ''limit'' = [''100'']))" if le: "lp_Limit pp \<le> 0"
  proof -
    have "limit (page ((call_NextPage api ^^ k) (ListProducts api pp))) = 100 \<and>
               (\<forall>c \<in> set (sent ((call_NextPage api ^^ k) (ListProducts api pp))).
                  values_of (snd (snd c)) ''limit'' = [''100''])" for k
      using products [of k] le
      by (simp only: limit_kept_def if_True ListProducts_limit_field) simp
    then show ?thesis using products [of 0] by blast
  qed
  have p2: "0 < limit (page ((call_NextPage api ^^ k) (ListProducts api pp))) \<and>
              limit (page ((call_NextPage api ^^ k) (ListProducts api pp))) =
                (if lp_Limit pp \<le> 0 then 100 else lp_Limit pp)" for k
    using products [of k] by (auto simp: limit_kept_def)
  show ?thesis
    using orders p1 p2 by blast
qed

theorem default_limits_witness:
  "lo_Limit open_orders \<le> 0 \<and>
   length (sent ((call_NextPage (sim_api (cursor_pages 1)) ^^ 1)
                   (ListOrders (sim_api (cursor_pages 1)) open_orders))) = 2 \<and>
   list_all (\<lambda>c. values_of (snd (snd c)) ''limit'' = [''50''])
     (sent ((call_NextPage (sim_api (cursor_pages 1)) ^^ 1)
              (ListOrders (sim_api (cursor_pages 1)) open_orders))) \<and>
   limit (page (ListProducts (sim_api (cursor_pages 1)) \<lparr>lp_Limit = 0, lp_Type = []\<rparr>)) = 100"
proof -
  let ?api = "sim_api (cursor_pages 1)"
  have h: "lo_Limit open_orders \<le> 0"
    by (simp add: open_orders_def)
  have h': "lp_Limit \<lparr>lp_Limit = 0, lp_Type = []\<rparr> \<le> 0"
    by simp
  note inst = default_limits [where api = ?api and po = open_orders
      and pp = "\<lparr>lp_Limit = 0, lp_Type = []\<rparr>"]
  have a: "\<forall>c \<in> set (sent ((call_NextPage ?api ^^ 1) (ListOrders ?api open_orders))).
             values_of (snd (snd c)) ''limit'' = [''50'']"
    using inst h by blast
  have b: "limit (page ((call_NextPage ?api ^^ 0)
             (ListProducts ?api \<lparr>lp_Limit = 0, lp_Type = []\<rparr>))) = 100"
    using inst h' by blast
  have c: "length (sent ((call_NextPage ?api ^^ 1) (ListOrders ?api open_orders))) = 2"
    by code_simp
  from b have b': "limit (page (ListProducts ?api \<lparr>lp_Limit = 0, lp_Type = []\<rparr>)) = 100"
    by (simp only: funpow_0)
  show ?thesis
    using h a b' c by (simp only: list_all_iff simp_thms)
qed

section \<open>Properties of the order operations\<close>

text \<open>
  C9 (client order id). When the wrapper marshals, \<^verbatim>\<open>CreateOrder\<close> makes one request,
  a POST to the orders endpoint whose body is the marshalled wrapper; the wrapper's client
  order id is the decimal form of the clock's milliseconds when the id given is empty, and
  the id given otherwise.
\<close>

theorem CreateOrder_client_order_id:
  assumes "marshal \<lparr>w_ClientOrderID = (if clientOrderId = [] then itoa now_ms else clientOrderId),
                     w_ProductID = productId, w_Side = side,
                     w_OrderConfiguration = [(oc_Type orderConfig, toMap lib orderConfig)]\<rparr>
           = Inr payload"
  shows "res_requests (CreateOrder lib now_ms marshal makeRequest clientOrderId productId side
                         orderConfig)
         = [(Post, createOrderEndpoint, [], payload)]"
  using assms by (simp add: CreateOrder_def Let_def split: sum.splits)

theorem CreateOrder_client_order_id_witness:
  "map (\<lambda>r. snd (snd (snd r)))
     (res_requests (CreateOrder plain_lib 1700000000123
        (\<lambda>w. Inr (w_ClientOrderID w @ ''/'' @ w_ProductID w))
        (\<lambda>m ep q body. Inl (errors_New ''offline''))
        [] ''BTC-USD'' ''BUY'' zero_OrderConfiguration))
   = [''1700000000123/BTC-USD''] \<and>
   map (\<lambda>r. snd (snd (snd r)))
     (res_requests (CreateOrder plain_lib 1700000000123
        (\<lambda>w. Inr (w_ClientOrderID w @ ''/'' @ w_ProductID w))
        (\<lambda>m ep q body. Inl (errors_New ''offline''))
        ''mine'' ''BTC-USD'' ''BUY'' zero_OrderConfiguration))
   = [''mine/BTC-USD'']"
proof -
  let ?marshal = "\<lambda>w. Inr (w_ClientOrderID w @ ''/'' @ w_ProductID w) :: error + string"
  have d: "itoa 1700000000123 = ''1700000000123''"
    by (simp add: itoa_def digits.simps)
  have h1: "?marshal \<lparr>w_ClientOrderID = (if ([]::string) = [] then itoa 1700000000123 else []),
                     w_ProductID = ''BTC-USD'', w_Side = ''BUY'',
                     w_OrderConfiguration =
                       [(oc_Type zero_OrderConfiguration, toMap plain_lib zero_OrderConfiguration)]\<rparr>
           = Inr ''1700000000123/BTC-USD''"
    by (simp add: d)
  have h2: "?marshal \<lparr>w_ClientOrderID = (if ''mine'' = [] then itoa 1700000000123 else ''mine''),
                     w_ProductID = ''BTC-USD'', w_Side = ''BUY'',
                     w_OrderConfiguration =
                       [(oc_Type zero_OrderConfiguration, toMap plain_lib zero_OrderConfiguration)]\<rparr>
           = Inr ''mine/BTC-USD''"
    by simp
  show ?thesis
    using CreateOrder_client_order_id [of ?marshal, OF h1]
      CreateOrder_client_order_id [of ?marshal, OF h2]
    by simp
qed

lemma note_failure_step_keys:
  "fst ` set (note_failure m v) = fst ` set m \<union> (if Success v then {} else {ID v})"
  by (simp add: note_failure_def dom_update)

lemma note_failure_keys:
  "fst ` set (foldl note_failure m rs) = fst ` set m \<union> ID ` {v \<in> set rs. \<not> Success v}"
  by (induction rs arbitrary: m) (auto simp: note_failure_step_keys)

lemma note_failure_step_distinct:
  "distinct (map fst m) \<Longrightarrow> distinct (map fst (note_failure m v))"
  by (simp add: note_failure_def distinct_update)

lemma note_failure_distinct:
  "distinct (map fst m) \<Longrightarrow> distinct (map fst (foldl note_failure m rs))"
  by (induction rs arbitrary: m) (simp_all add: note_failure_step_distinct)

lemma note_failure_map_of:
  "map_of (foldl note_failure m rs) =
     map_of (rev (map (\<lambda>v. (ID v, failure_reason v)) (filter (\<lambda>v. \<not> Success v) rs)) @ m)"
proof (induction rs arbitrary: m)
  case Nil
  then show ?case by simp
next
  case (Cons r rs)
  show ?case
  proof (cases "Success r")
    case True
    then have n: "note_failure m r = m" by (simp add: note_failure_def)
    show ?thesis using Cons [of m] True by (simp add: n)
  next
    case False
    then have n: "note_failure m r = AList.update (ID r) (failure_reason r) m"
      by (simp add: note_failure_def)
    have "map_of (foldl note_failure m (r # rs)) =
          map_of (rev (map (\<lambda>v. (ID v, failure_reason v)) (filter (\<lambda>v. \<not> Success v) rs)) @
                  AList.update (ID r) (failure_reason r) m)"
      using Cons [of "note_failure m r"] by (simp add: n)
    also have "\<dots> = map_of (rev (map (\<lambda>v. (ID v, failure_reason v))
                         (filter (\<lambda>v. \<not> Success v) (r # rs))) @ m)"
      using False by (simp add: update_conv' fun_eq_iff map_add_def split: option.splits)
    finally show ?thesis .
  qed
qed

text \<open>
  C8 (partial failure of a batch cancel). When the request succeeds, the map returned has
  one entry for every order id that some result reports as failed, and for no other id;
  an id is mapped to the failure reason of the last failed result that names it, which is
  the reason of every failed result that names it when these agree; and the error returned
  is not nil exactly when some result reports a failure.
\<close>

theorem CancelOrders_failures:
  assumes "marshal orderIds = Inr payload"
    and "makeRequest Post cancelOrdersEndpoint [] payload = Inr Results"
  shows "\<exists>cancelErrors err.
           CancelOrders marshal makeRequest orderIds = (cancelErrors, err) \<and>
           distinct (map fst cancelErrors) \<and>
           fst ` set cancelErrors = ID ` {v \<in> set Results. \<not> Success v} \<and>
           map_of cancelErrors =
             map_of (rev (map (\<lambda>v. (ID v, failure_reason v))
                            (filter (\<lambda>v. \<not> Success v) Results))) \<and>
           (\<forall>v \<in> set Results.
              \<not> Success v \<and>
              (\<forall>w \<in> set Results. \<not> Success w \<and> ID w = ID v \<longrightarrow>
                 failure_reason w = failure_reason v) \<longrightarrow>
              map_of cancelErrors (ID v) = Some (failure_reason v)) \<and>
           (err \<noteq> None \<longleftrightarrow> (\<exists>v \<in> set Results. \<not> Success v))"
proof -
  let ?m = "foldl note_failure [] Results"
  let ?L = "map (\<lambda>v. (ID v, failure_reason v)) (filter (\<lambda>v. \<not> Success v) Results)"
  let ?err = "if length ?m > 0
              then Some (errors_New ''one or more orders were not cancelled successfully'')
              else None"
  have run: "CancelOrders marshal makeRequest orderIds = (?m, ?err)"
    using assms by (simp add: CancelOrders_def Let_def)
  have d: "distinct (map fst ?m)"
    by (rule note_failure_distinct) simp
  have k: "fst ` set ?m = ID ` {v \<in> set Results. \<not> Success v}"
    using note_failure_keys [of "[]" Results] by simp
  have m: "map_of ?m = map_of (rev ?L)"
    using note_failure_map_of [of "[]" Results] by simp
  have each: "map_of ?m (ID v) = Some (failure_reason v)"
    if v: "v \<in> set Results" "\<not> Success v"
      and same: "\<forall>w \<in> set Results. \<not> Success w \<and> ID w = ID v \<longrightarrow>
                 failure_reason w = failure_reason v" for v
  proof -
    have "ID v \<in> fst ` set (rev ?L)"
      using v by force
    then obtain y where y: "map_of (rev ?L) (ID v) = Some y"
      by (metis domD dom_map_of_conv_image_fst)
    then have "(ID v, y) \<in> set (rev ?L)"
      by (rule map_of_SomeD)
    then obtain w where "w \<in> set Results" "\<not> Success w" "ID w = ID v" "failure_reason w = y"
      by auto
    then have "y = failure_reason v"
      using same by auto
    then show ?thesis
      using y m by simp
  qed
  have e: "?err \<noteq> None \<longleftrightarrow> (\<exists>v \<in> set Results. \<not> Success v)"
  proof -
    have "?err \<noteq> None \<longleftrightarrow> ?m \<noteq> []" by simp
    also have "\<dots> \<longleftrightarrow> fst ` set ?m \<noteq> {}" by simp
    also have "\<dots> \<longleftrightarrow> (\<exists>v \<in> set Results. \<not> Success v)"
      unfolding k by auto
    finally show ?thesis .
  qed
  show ?thesis
    using run d k m each e by blast
qed

theorem CancelOrders_failures_witness:
  "CancelOrders (\<lambda>ids. Inr (concat ids))
     (\<lambda>m ep q body.
        Inr [\<lparr>Success = True, failure_reason = [], ID = ''a''\<rparr>,
             \<lparr>Success = False, failure_reason = ''UNKNOWN_CANCEL_ORDER'', ID = ''b''\<rparr>,
             \<lparr>Success = False, failure_reason = ''DUPLICATE_CANCEL_REQUEST'', ID = ''c''\<rparr>])
     [''a'', ''b'', ''c'']
   = ([(''b'', ''UNKNOWN_CANCEL_ORDER''), (''c'', ''DUPLICATE_CANCEL_REQUEST'')],
      Some (errors_New ''one or more orders were not cancelled successfully''))"
proof -
  let ?marshal = "\<lambda>ids. Inr (concat ids) :: error + string"
  let ?rs = "[\<lparr>Success = True, failure_reason = [], ID = ''a''\<rparr>,
             \<lparr>Success = False, failure_reason = ''UNKNOWN_CANCEL_ORDER'', ID = ''b''\<rparr>,
             \<lparr>Success = False, failure_reason = ''DUPLICATE_CANCEL_REQUEST'', ID = ''c''\<rparr>]"
  let ?mk = "\<lambda>(m::Method) (ep::string) (q::Values) (body::string). Inr ?rs :: error + cancel_result list"
  have h1: "?marshal [''a'', ''b'', ''c''] = Inr ''abc''" by simp
  have h2: "?mk Post cancelOrdersEndpoint [] ''abc'' = Inr ?rs" by simp
  show ?thesis
    using CancelOrders_failures [of ?marshal, OF h1, of ?mk, OF h2]
    by (simp add: CancelOrders_def note_failure_def)
qed

end
